theory Spec2Isabelle
  imports Complex_Main "HOL-Library.Word" "HOL-Library.Sublist"
begin

unbundle bit_operations_syntax

section \<open>Data model\<close>

text \<open>
  JavaScript strings are sequences of UTF-16 code units, and \<open>length\<close>, \<open>substring\<close>,
  \<open>split\<close> and the regular expressions of the source all work on code units. A string is
  therefore a list of 16-bit words; \<open>js\<close> embeds an ASCII literal. A \<open>Uint8Array\<close> is a
  list of bytes.
\<close>

type_synonym jschar = "16 word"
type_synonym jsstring = "jschar list"
type_synonym bytes = "8 word list"

abbreviation cu :: "char \<Rightarrow> jschar" where
  "cu c \<equiv> of_char c"

abbreviation js :: "string \<Rightarrow> jsstring" where
  "js s \<equiv> map of_char s"

subsection \<open>src/errors/index.ts\<close>

text \<open>
  The four subclasses of \<open>CRXError\<close> and the plain \<open>Error\<close> (also what a failing shell
  command or file operation throws). The message of the source is kept as a tag.
\<close>

datatype message =
    InputMustBeNonEmptyString
  | InvalidExtensionIdFormat
  | DownloadFailedStatus
  | ReceivedHtml
  | NotAValidCrxFile
  | DownloadTimedOut
  | FileNotFoundOrInaccessible
  | FileTooLarge
  | FailedToLoadFile
  | BufferUnderrun
  | BufferNotInitialized
  | InvalidCrxMagic
  | UnsupportedCrxVersion
  | ZipOffsetExceedsFileSize
  | CouldNotParseZipInformation
  | FailedToAnalyzeZip
  | SuspiciousCompressionRatio
  | TooManyFiles
  | ExtractedSizeTooLarge
  | FailedToCreateDirectory
  | UnzipFailedWithExitCode
  | ExtractionFailedZipSavedTo jsstring
  | PathResolvesOutsideAllowed
  | FailedToLoadInput
  | ManifestMustBeObject
  | ManifestMissingName
  | ManifestMissingVersion
  | ManifestMissingManifestVersion
  | ManifestDescriptionNotString
  | ManifestPermissionsNotStrings
  | InvalidJson
  | AbortError
  | ExternalFailure

datatype error =
    ValidationError message
  | DownloadError message
  | ExtractionError message
  | SecurityError message
  | Error message

fun code :: "error \<Rightarrow> string option" where
  "code (ValidationError m) = Some ''VALIDATION_ERROR''"
| "code (DownloadError m) = Some ''DOWNLOAD_ERROR''"
| "code (ExtractionError m) = Some ''EXTRACTION_ERROR''"
| "code (SecurityError m) = Some ''SECURITY_ERROR''"
| "code (Error m) = None"

fun isSecurityError :: "error \<Rightarrow> bool" where
  "isSecurityError (SecurityError m) = True"
| "isSecurityError e = False"

subsection \<open>src/config\<close>

definition CRX_MAGIC :: nat where
  "CRX_MAGIC = 0x34327243"

definition CRX_VERSION_2 :: nat where
  "CRX_VERSION_2 = 2"

definition CRX_VERSION_3 :: nat where
  "CRX_VERSION_3 = 3"

definition DEFAULT_EXTENSIONS_DIR :: jsstring where
  "DEFAULT_EXTENSIONS_DIR = js ''_extensions''"

record ExtractorConfig =
  maxFileSize :: nat
  downloadTimeout :: nat
  maxExtractionRatio :: nat
  maxExtractedFiles :: nat
  maxExtractedSize :: nat
  allowedOutputPaths :: "jsstring list"
  extensionsDir :: jsstring

definition DEFAULT_CONFIG :: ExtractorConfig where
  "DEFAULT_CONFIG =
     \<lparr> maxFileSize = 500 * 1024 * 1024,
       downloadTimeout = 30000,
       maxExtractionRatio = 100,
       maxExtractedFiles = 10000,
       maxExtractedSize = 1024 * 1024 * 1024,
       allowedOutputPaths = [js ''.''],
       extensionsDir = DEFAULT_EXTENSIONS_DIR \<rparr>"

subsection \<open>src/types/index.ts\<close>

record CRXHeader =
  version :: nat
  zipOffset :: nat

record ZipInfo =
  fileCount :: nat
  uncompressedSize :: nat
  compressedSize :: nat

section \<open>Header parsing (src/core/crx-extractor.ts)\<close>

text \<open>
  The part of the extractor object that header parsing reads and writes: the loaded buffer
  (\<open>null\<close> until acquisition succeeds) and the read cursor. A method is a function from
  the object state to its outcome (the thrown error or the returned value) and the state it
  leaves behind.
\<close>

record reader =
  buffer :: "bytes option"
  offset :: nat

definition readUInt32LEAt :: "bytes \<Rightarrow> nat \<Rightarrow> error + nat" where
  "readUInt32LEAt buf off =
     (if off + 4 > length buf then Inl (ValidationError BufferUnderrun)
      else Inr (unat ((ucast (buf ! off)
                  OR push_bit 8 (ucast (buf ! (off + 1)))
                  OR push_bit 16 (ucast (buf ! (off + 2)))
                  OR push_bit 24 (ucast (buf ! (off + 3)))) :: 32 word)))"

definition readUInt32LE :: "'a reader_scheme \<Rightarrow> (error + nat) \<times> 'a reader_scheme" where
  "readUInt32LE st =
     (case buffer st of
        None \<Rightarrow> (Inl (Error BufferNotInitialized), st)
      | Some buf \<Rightarrow>
          (case readUInt32LEAt buf (offset st) of
             Inl e \<Rightarrow> (Inl e, st)
           | Inr v \<Rightarrow> (Inr v, st\<lparr>offset := offset st + 4\<rparr>)))"

definition parseHeader :: "'a reader_scheme \<Rightarrow> (error + CRXHeader) \<times> 'a reader_scheme" where
  "parseHeader st0 =
     (case buffer st0 of
        None \<Rightarrow> (Inl (Error BufferNotInitialized), st0)
      | Some buf \<Rightarrow>
          (case readUInt32LE (st0\<lparr>offset := 0\<rparr>) of
             (Inl e, st1) \<Rightarrow> (Inl e, st1)
           | (Inr magic, st1) \<Rightarrow>
               if magic \<noteq> CRX_MAGIC then (Inl (ValidationError InvalidCrxMagic), st1)
               else
                 (case readUInt32LE st1 of
                    (Inl e, st2) \<Rightarrow> (Inl e, st2)
                  | (Inr v, st2) \<Rightarrow>
                      (case
                         (if v = CRX_VERSION_2 then
                            (case readUInt32LE st2 of
                               (Inl e, st3) \<Rightarrow> (Inl e, st3)
                             | (Inr publicKeyLength, st3) \<Rightarrow>
                                 (case readUInt32LE st3 of
                                    (Inl e, st4) \<Rightarrow> (Inl e, st4)
                                  | (Inr signatureLength, st4) \<Rightarrow>
                                      (Inr (offset st4 + publicKeyLength + signatureLength), st4)))
                          else if v = CRX_VERSION_3 then
                            (case readUInt32LE st2 of
                               (Inl e, st3) \<Rightarrow> (Inl e, st3)
                             | (Inr headerSize, st3) \<Rightarrow> (Inr (offset st3 + headerSize), st3))
                          else (Inl (ValidationError UnsupportedCrxVersion), st2))
                       of
                         (Inl e, st5) \<Rightarrow> (Inl e, st5)
                       | (Inr zo, st5) \<Rightarrow>
                           if zo \<ge> length buf
                           then (Inl (ValidationError ZipOffsetExceedsFileSize), st5)
                           else (Inr \<lparr>version = v, zipOffset = zo\<rparr>, st5)))))"

section \<open>Path utilities (src/utils/path.ts)\<close>

definition startsWith :: "jsstring \<Rightarrow> jsstring \<Rightarrow> bool" where
  "startsWith s p = (take (length p) s = p)"

text \<open>\<open>Array.prototype.join('/')\<close>.\<close>

fun joinSlash :: "jsstring list \<Rightarrow> jsstring" where
  "joinSlash [] = []"
| "joinSlash [x] = x"
| "joinSlash (x # y # ys) = x @ cu CHR ''/'' # joinSlash (y # ys)"

text \<open>
  \<open>String.prototype.split\<close> at a one-character separator: the empty string splits into
  one empty part.
\<close>

fun splitChar :: "jschar \<Rightarrow> jsstring \<Rightarrow> jsstring list" where
  "splitChar sep [] = [[]]"
| "splitChar sep (c # cs) =
     (if c = sep then [] # splitChar sep cs
      else (case splitChar sep cs of [] \<Rightarrow> [[c]] | p # ps \<Rightarrow> (c # p) # ps))"

text \<open>
  The four global replacements of \<open>PathUtils.join\<close>. A global \<open>replace\<close> scans from the
  left; at each index it tries to match there, on a match emits the replacement and goes
  on behind the match, otherwise copies one code unit and advances.
  \<^item> \<open>replace(/\/+/g, '/')\<close>: every maximal run of slashes becomes one slash;
  \<^item> \<open>replace(/\/\.\//g, '/')\<close>;
  \<^item> \<open>replace(/([^/]+)\/\.\.\//g, '')\<close>: at an index holding a non-slash, the greedy
    \<open>[^/]+\<close> takes the whole run of non-slashes, and no shorter run can be followed by
    a slash, so there is a match iff that run is followed by \<open>/../\<close>;
  \<^item> \<open>replace(/\/$/, '')\<close>: one trailing slash is removed.
\<close>

fun collapseSlashes :: "jsstring \<Rightarrow> jsstring" where
  "collapseSlashes [] = []"
| "collapseSlashes [c] = [c]"
| "collapseSlashes (c # d # cs) =
     (if c = cu CHR ''/'' \<and> d = cu CHR ''/'' then collapseSlashes (d # cs)
      else c # collapseSlashes (d # cs))"

fun removeDotSlash :: "jsstring \<Rightarrow> jsstring" where
  "removeDotSlash (a # b # c # cs) =
     (if a = cu CHR ''/'' \<and> b = cu CHR ''.'' \<and> c = cu CHR ''/''
      then cu CHR ''/'' # removeDotSlash cs
      else a # removeDotSlash (b # c # cs))"
| "removeDotSlash cs = cs"

definition notSlash :: "jschar \<Rightarrow> bool" where
  "notSlash c = (c \<noteq> cu CHR ''/'')"

function removeParentRefs :: "jsstring \<Rightarrow> jsstring" where
  "removeParentRefs [] = []"
| "removeParentRefs (c # cs) =
     (if notSlash c \<and> startsWith (dropWhile notSlash cs) (js ''/../'')
      then removeParentRefs (drop 4 (dropWhile notSlash cs))
      else c # removeParentRefs cs)"
  by pat_completeness auto
termination
  by (relation "measure length")
     (auto intro: le_less_trans [OF diff_le_self] le_less_trans [OF length_dropWhile_le])

definition removeTrailingSlash :: "jsstring \<Rightarrow> jsstring" where
  "removeTrailingSlash s = (if s \<noteq> [] \<and> last s = cu CHR ''/'' then butlast s else s)"

definition join :: "jsstring list \<Rightarrow> jsstring" where
  "join segments =
     removeTrailingSlash (removeParentRefs (removeDotSlash (collapseSlashes
       (joinSlash (filter (\<lambda>s. length s > 0) segments)))))"

fun lastIndexOf :: "jschar \<Rightarrow> jsstring \<Rightarrow> nat option" where
  "lastIndexOf c [] = None"
| "lastIndexOf c (x # xs) =
     (case lastIndexOf c xs of
        Some i \<Rightarrow> Some (Suc i)
      | None \<Rightarrow> if x = c then Some 0 else None)"

definition dirname :: "jsstring \<Rightarrow> jsstring" where
  "dirname path =
     (case lastIndexOf (cu CHR ''/'') path of
        None \<Rightarrow> js ''.''
      | Some lastSlash \<Rightarrow> if lastSlash = 0 then js ''/'' else take lastSlash path)"

text \<open>
  \<open>resolve\<close> reads \<open>import.meta.dir\<close>, the directory of the module file: a constant of the
  installation, passed as \<open>metaDir\<close>.
\<close>

definition resolve :: "jsstring \<Rightarrow> jsstring list \<Rightarrow> jsstring" where
  "resolve metaDir segments =
     (let joined = join segments in
      if startsWith joined (js ''/'') then joined else join [metaDir, joined])"

text \<open>
  The loop of \<open>PathUtils.normalize\<close> over the parts: \<open>result.pop()\<close> on the empty array does
  nothing, \<open>push\<close> appends.
\<close>

definition normalizeStep :: "jsstring list \<Rightarrow> jsstring \<Rightarrow> jsstring list" where
  "normalizeStep result part =
     (if part = js ''.'' \<or> part = [] then result
      else if part = js ''..'' then butlast result
      else result @ [part])"

definition normalize_path :: "jsstring \<Rightarrow> jsstring" where
  "normalize_path path =
     (let result = foldl normalizeStep [] (splitChar (cu CHR ''/'') path);
          normalized = (if startsWith path (js ''/'') then js ''/'' else []) @ joinSlash result
      in if normalized = [] then js ''.'' else normalized)"

section \<open>Path validation (src/validators/path.ts)\<close>

text \<open>
  The process-global state a path computation could read: the current working directory
  (\<open>process.cwd()\<close>) and the module directory (\<open>import.meta.dir\<close>).
\<close>

record process =
  cwd :: jsstring
  metaDir :: jsstring

record PathValidator =
  resolvedAllowedPaths :: "jsstring list"
  workingDirectory :: jsstring

definition newPathValidator :: "process \<Rightarrow> jsstring list \<Rightarrow> PathValidator" where
  "newPathValidator proc allowedPaths =
     (let wd = cwd proc in
      \<lparr> resolvedAllowedPaths =
          map (\<lambda>path. if path = js ''.'' then wd
                       else if \<not> startsWith path (js ''/'') then join [wd, path]
                       else path) allowedPaths,
        workingDirectory = wd \<rparr>)"

definition isAllowed :: "PathValidator \<Rightarrow> jsstring \<Rightarrow> bool" where
  "isAllowed pv normalized =
     list_ex (\<lambda>allowed.
        let allowedNormalized = normalize_path allowed in
        startsWith normalized (allowedNormalized @ js ''/'') \<or> normalized = allowedNormalized)
      (resolvedAllowedPaths pv)"

text \<open>An absent or empty \<open>baseDir\<close> is falsy.\<close>

definition truthy :: "jsstring option \<Rightarrow> jsstring option" where
  "truthy s = (case s of None \<Rightarrow> None | Some v \<Rightarrow> if v = [] then None else Some v)"

definition validatePath ::
  "process \<Rightarrow> PathValidator \<Rightarrow> jsstring \<Rightarrow> jsstring option \<Rightarrow> error + jsstring" where
  "validatePath proc pv path baseDir =
     (let resolved =
            (case truthy baseDir of
               Some b \<Rightarrow> resolve (metaDir proc) [b, path]
             | None \<Rightarrow>
                 if \<not> startsWith path (js ''/'') then join [workingDirectory pv, path]
                 else path);
          normalized = normalize_path resolved
      in if \<not> isAllowed pv normalized then Inl (SecurityError PathResolvesOutsideAllowed)
         else Inr normalized)"

text \<open>
  The character class \<open>[<>:"/\\|?*\x00-\x1f]\<close> of \<open>sanitizeFilename\<close>, by code unit:
  \<open><\<close> 3C, \<open>>\<close> 3E, \<open>:\<close> 3A, the double quote 22, \<open>/\<close> 2F, the backslash 5C,
  \<open>|\<close> 7C, \<open>?\<close> 3F, \<open>*\<close> 2A, and everything up to 1F.
\<close>

definition illegalChar :: "jschar \<Rightarrow> bool" where
  "illegalChar c =
     (c = 0x3C \<or> c = 0x3E \<or> c = 0x3A \<or> c = 0x22 \<or> c = 0x2F \<or> c = 0x5C
      \<or> c = 0x7C \<or> c = 0x3F \<or> c = 0x2A \<or> c \<le> 0x1F)"

text \<open>\<open>replace(/\.{2,}/g, '_')\<close>: every maximal run of two or more dots becomes one underscore.\<close>

definition isDot :: "jschar \<Rightarrow> bool" where
  "isDot c = (c = cu CHR ''.'')"

function replaceDotRuns :: "jsstring \<Rightarrow> jsstring" where
  "replaceDotRuns [] = []"
| "replaceDotRuns [c] = [c]"
| "replaceDotRuns (c # d # cs) =
     (if isDot c \<and> isDot d then cu CHR ''_'' # replaceDotRuns (dropWhile isDot cs)
      else c # replaceDotRuns (d # cs))"
  by pat_completeness auto
termination
  by (relation "measure length") (auto intro: le_less_trans [OF length_dropWhile_le])

text \<open>
  \<open>String.prototype.trim\<close> removes the code units of WhiteSpace and LineTerminator of
  ECMAScript from both ends: TAB, LF, VT, FF, CR, SP, NBSP, U+1680, U+2000 to U+200A,
  U+2028, U+2029, U+202F, U+205F, U+3000 and U+FEFF.
\<close>

definition isWhiteSpace :: "jschar \<Rightarrow> bool" where
  "isWhiteSpace c =
     (c = 0x09 \<or> c = 0x0A \<or> c = 0x0B \<or> c = 0x0C \<or> c = 0x0D \<or> c = 0x20 \<or> c = 0xA0
      \<or> c = 0x1680 \<or> (0x2000 \<le> c \<and> c \<le> 0x200A) \<or> c = 0x2028 \<or> c = 0x2029
      \<or> c = 0x202F \<or> c = 0x205F \<or> c = 0x3000 \<or> c = 0xFEFF)"

definition trim :: "jsstring \<Rightarrow> jsstring" where
  "trim s = rev (dropWhile isWhiteSpace (rev (dropWhile isWhiteSpace s)))"

definition sanitizeFilename :: "jsstring \<Rightarrow> jsstring" where
  "sanitizeFilename name =
     (let sanitized = trim (replaceDotRuns (map (\<lambda>c. if illegalChar c then cu CHR ''_'' else c) name));
          sanitized = (if length sanitized > 200 then take 200 sanitized else sanitized)
      in if sanitized = [] then js ''unnamed'' else sanitized)"

section \<open>Security gate (src/core/crx-extractor.ts)\<close>

text \<open>
  The numbers of an archive summary are non-negative integers (\<open>parseInt\<close> of digit runs
  and a file size). Their quotient is a JavaScript number: dividing by zero does not throw,
  it gives \<open>NaN\<close> for \<open>0 / 0\<close> and \<open>Infinity\<close> otherwise, and every comparison with
  \<open>NaN\<close> is false. A finite quotient is kept exact: the rounding of the quotient to a
  double is not modelled.
\<close>

datatype jsnumber = NaN | Infinity | Finite rat

definition divide_js :: "nat \<Rightarrow> nat \<Rightarrow> jsnumber" where
  "divide_js a b =
     (if b = 0 then (if a = 0 then NaN else Infinity) else Finite (of_nat a / of_nat b))"

fun greater_js :: "jsnumber \<Rightarrow> nat \<Rightarrow> bool" where
  "greater_js NaN m = False"
| "greater_js Infinity m = True"
| "greater_js (Finite q) m = (q > of_nat m)"

text \<open>The body of \<open>validateZipSecurity\<close> once \<open>getZipInfo\<close> has returned \<open>info\<close>.\<close>

definition checkZipInfo :: "ExtractorConfig \<Rightarrow> ZipInfo \<Rightarrow> error + unit" where
  "checkZipInfo cfg info =
     (let ratio = divide_js (uncompressedSize info) (compressedSize info) in
      if greater_js ratio (maxExtractionRatio cfg) then Inl (SecurityError SuspiciousCompressionRatio)
      else if fileCount info > maxExtractedFiles cfg then Inl (SecurityError TooManyFiles)
      else if uncompressedSize info > maxExtractedSize cfg then Inl (SecurityError ExtractedSizeTooLarge)
      else Inr ())"

section \<open>The world outside the extractor\<close>

text \<open>
  The file system maps a path to a directory or to a file with its bytes. Every shell
  command and file operation the extractor issues is appended to \<open>trace\<close> when it is
  attempted. Whether the n-th attempted operation fails is decided by the environment
  (\<open>fails\<close>), so that every operation can fail on every run; a failing operation throws
  and leaves the file system as it was.
\<close>

datatype node = Dir | File bytes

datatype syscall =
    MkdirP jsstring
  | RmRf jsstring
  | WriteFile jsstring bytes
  | UnzipList jsstring
  | StatFile jsstring
  | Unzip jsstring jsstring
  | MoveAll jsstring jsstring

record world =
  fs :: "jsstring \<Rightarrow> node option"
  trace :: "syscall list"

datatype bodyOutcome = BodyAbort | BodyError | BodyBytes bytes

datatype fetchOutcome =
    FetchAbort
  | FetchError
  | FetchResponse bool "jsstring option" bodyOutcome

datatype json =
    JNull
  | JBool bool
  | JNumber rat
  | JString jsstring
  | JArray "json list"
  | JObject "(jsstring \<times> json) list"

text \<open>
  What the extractor cannot decide itself: the process state, the clock, the failures of
  operations, the answer of the web store, the three concurrent reads of the local input
  file (\<open>exists\<close>, which may reject; \<open>stat\<close> and \<open>arrayBuffer\<close>, whose rejection is
  caught and made \<open>null\<close>), what the \<open>unzip\<close> utility prints for,
  extracts from and returns on an archive, and what \<open>JSON.parse\<close> makes of a file.
\<close>

record env =
  proc :: process
  now :: nat
  fails :: "nat \<Rightarrow> bool"
  fetched :: fetchOutcome
  inputExists :: "bool option"
  inputStat :: "nat option"
  inputArrayBuffer :: "bytes option"
  unzipListing :: "bytes \<Rightarrow> jsstring"
  unzipEntries :: "bytes \<Rightarrow> (jsstring \<times> bytes) list"
  unzipExitCode :: "bytes \<Rightarrow> nat"
  parseJson :: "bytes \<Rightarrow> json option"

definition attempt :: "env \<Rightarrow> syscall \<Rightarrow> world \<Rightarrow> bool \<times> world" where
  "attempt e c w = (\<not> fails e (length (trace w)), w\<lparr>trace := trace w @ [c]\<rparr>)"

text \<open>The directories on the way to a path: every prefix that ends before a slash, and the path.\<close>

fun ancestors :: "jsstring \<Rightarrow> jsstring \<Rightarrow> jsstring list" where
  "ancestors pre [] = (if pre = [] then [] else [pre])"
| "ancestors pre (c # cs) =
     (if c = cu CHR ''/'' \<and> pre \<noteq> [] then pre # ancestors (pre @ [c]) cs
      else ancestors (pre @ [c]) cs)"

definition withinDir :: "jsstring \<Rightarrow> jsstring \<Rightarrow> bool" where
  "withinDir dir path = (path = dir \<or> startsWith path (dir @ js ''/''))"

definition makeDirs :: "jsstring list \<Rightarrow> (jsstring \<Rightarrow> node option) \<Rightarrow> (jsstring \<Rightarrow> node option)" where
  "makeDirs ds f = (\<lambda>q. if q \<in> set ds \<and> f q = None then Some Dir else f q)"

text \<open>\<open>mkdir -p path\<close>.\<close>

definition mkdirP :: "env \<Rightarrow> jsstring \<Rightarrow> world \<Rightarrow> (error + unit) \<times> world" where
  "mkdirP e path w =
     (case attempt e (MkdirP path) w of
        (False, w') \<Rightarrow> (Inl (Error ExternalFailure), w')
      | (True, w') \<Rightarrow> (Inr (), w'\<lparr>fs := makeDirs (ancestors [] path) (fs w')\<rparr>))"

text \<open>\<open>rm -rf path\<close>.\<close>

definition rmRf :: "env \<Rightarrow> jsstring \<Rightarrow> world \<Rightarrow> (error + unit) \<times> world" where
  "rmRf e path w =
     (case attempt e (RmRf path) w of
        (False, w') \<Rightarrow> (Inl (Error ExternalFailure), w')
      | (True, w') \<Rightarrow> (Inr (), w'\<lparr>fs := (\<lambda>q. if withinDir path q then None else fs w' q)\<rparr>))"

text \<open>\<open>Bun.write(path, data)\<close>, which creates the missing parent directories.\<close>

definition writeFile :: "env \<Rightarrow> jsstring \<Rightarrow> bytes \<Rightarrow> world \<Rightarrow> (error + unit) \<times> world" where
  "writeFile e path data w =
     (case attempt e (WriteFile path data) w of
        (False, w') \<Rightarrow> (Inl (Error ExternalFailure), w')
      | (True, w') \<Rightarrow>
          (Inr (), w'\<lparr>fs := (makeDirs (butlast (ancestors [] path)) (fs w'))(path \<mapsto> File data)\<rparr>))"

text \<open>
  \<open>unzip -q -o zip -d dir\<close>: the entries the utility extracts are written below \<open>dir\<close>;
  the command returns its exit code, which \<open>extractZip\<close> then checks. (A shell that throws
  on a non-zero exit code ends in the same \<open>catch\<close> clause.)
\<close>

definition writeEntry ::
  "jsstring \<Rightarrow> (jsstring \<Rightarrow> node option) \<Rightarrow> jsstring \<times> bytes \<Rightarrow> (jsstring \<Rightarrow> node option)" where
  "writeEntry dir f entry =
     (let path = dir @ js ''/'' @ fst entry
      in (makeDirs (butlast (ancestors [] path)) f)(path \<mapsto> File (snd entry)))"

definition unzipInto :: "env \<Rightarrow> jsstring \<Rightarrow> jsstring \<Rightarrow> world \<Rightarrow> (error + nat) \<times> world" where
  "unzipInto e zipPath dir w =
     (case attempt e (Unzip zipPath dir) w of
        (False, w') \<Rightarrow> (Inl (Error ExternalFailure), w')
      | (True, w') \<Rightarrow>
          (case fs w' zipPath of
             Some (File data) \<Rightarrow>
               (Inr (unzipExitCode e data),
                w'\<lparr>fs := foldl (writeEntry dir) (fs w') (unzipEntries e data)\<rparr>)
           | _ \<Rightarrow> (Inl (Error ExternalFailure), w')))"

text \<open>
  \<open>mv src/* dst/ 2>/dev/null || true\<close>: the glob takes the entries of \<open>src\<close> whose name
  does not begin with a dot; they and everything below them move to \<open>dst\<close>. The command
  never throws.
\<close>

definition visibleBelow :: "jsstring \<Rightarrow> jsstring \<Rightarrow> bool" where
  "visibleBelow dir path =
     (startsWith path (dir @ js ''/'')
      \<and> (case drop (length dir + 1) path of [] \<Rightarrow> False | c # cs \<Rightarrow> c \<noteq> cu CHR ''.''))"

definition moveAll :: "env \<Rightarrow> jsstring \<Rightarrow> jsstring \<Rightarrow> world \<Rightarrow> world" where
  "moveAll e src dst w =
     (case attempt e (MoveAll src dst) w of
        (False, w') \<Rightarrow> w'
      | (True, w') \<Rightarrow>
          w'\<lparr>fs := (\<lambda>q.
                 if visibleBelow dst q \<and> fs w' (src @ js ''/'' @ drop (length dst + 1) q) \<noteq> None
                 then fs w' (src @ js ''/'' @ drop (length dst + 1) q)
                 else if visibleBelow src q then None
                 else fs w' q)\<rparr>)"

section \<open>The extractor (src/core/crx-extractor.ts)\<close>

record ExtensionInfo =
  info_id :: "jsstring option"
  info_name :: "jsstring option"

record extractor = reader +
  input :: jsstring
  config :: ExtractorConfig
  pathValidator :: PathValidator
  extensionInfo :: ExtensionInfo

definition newCRXExtractor :: "process \<Rightarrow> jsstring \<Rightarrow> ExtractorConfig \<Rightarrow> error + extractor" where
  "newCRXExtractor p inp cfg =
     (if inp = [] then Inl (ValidationError InputMustBeNonEmptyString)
      else Inr \<lparr> buffer = None, offset = 0, input = inp, config = cfg,
                 pathValidator = newPathValidator p (allowedOutputPaths cfg),
                 extensionInfo = \<lparr>info_id = None, info_name = None\<rparr> \<rparr>)"

definition isLower :: "jschar \<Rightarrow> bool" where
  "isLower c = (cu CHR ''a'' \<le> c \<and> c \<le> cu CHR ''z'')"

text \<open>\<open>input.match(/([a-z]{32})/)\<close>: the leftmost run of 32 lower-case letters.\<close>

fun findExtensionId :: "jsstring \<Rightarrow> jsstring option" where
  "findExtensionId [] = None"
| "findExtensionId (c # cs) =
     (if length (c # cs) \<ge> 32 \<and> list_all isLower (take 32 (c # cs)) then Some (take 32 (c # cs))
      else findExtensionId cs)"

fun includes_str :: "jsstring \<Rightarrow> jsstring \<Rightarrow> bool" where
  "includes_str [] pat = (pat = [])"
| "includes_str (c # cs) pat = (startsWith (c # cs) pat \<or> includes_str cs pat)"

definition downloadFromWebStore ::
  "env \<Rightarrow> jsstring \<Rightarrow> extractor \<Rightarrow> (error + bytes) \<times> extractor" where
  "downloadFromWebStore e extensionId st =
     (if \<not> (length extensionId = 32 \<and> list_all isLower extensionId)
      then (Inl (ValidationError InvalidExtensionIdFormat), st)
      else
        let st' = st\<lparr>extensionInfo := \<lparr>info_id = Some extensionId, info_name = Some extensionId\<rparr>\<rparr>
        in (case fetched e of
              FetchAbort \<Rightarrow> (Inl (DownloadError DownloadTimedOut), st')
            | FetchError \<Rightarrow> (Inl (Error ExternalFailure), st')
            | FetchResponse ok contentType body \<Rightarrow>
                if \<not> ok then (Inl (DownloadError DownloadFailedStatus), st')
                else if (case contentType of None \<Rightarrow> False | Some ct \<Rightarrow> includes_str ct (js ''text/html''))
                then (Inl (DownloadError ReceivedHtml), st')
                else (case body of
                        BodyAbort \<Rightarrow> (Inl (DownloadError DownloadTimedOut), st')
                      | BodyError \<Rightarrow> (Inl (Error ExternalFailure), st')
                      | BodyBytes buf \<Rightarrow>
                          if length buf < 8 \<or> readUInt32LEAt buf 0 \<noteq> Inr CRX_MAGIC
                          then (Inl (ValidationError NotAValidCrxFile), st')
                          else (Inr buf, st'))))"

text \<open>\<open>String.prototype.replace\<close> with a string pattern removes the first occurrence.\<close>

fun removeFirst :: "jsstring \<Rightarrow> jsstring \<Rightarrow> jsstring" where
  "removeFirst pat [] = []"
| "removeFirst pat (c # cs) =
     (if startsWith (c # cs) pat then drop (length pat) (c # cs) else c # removeFirst pat cs)"

definition loadLocalFile :: "env \<Rightarrow> extractor \<Rightarrow> (error + unit) \<times> extractor" where
  "loadLocalFile e st =
     (case (inputExists e, inputStat e, inputArrayBuffer e) of
        (None, stats, contents) \<Rightarrow> (Inl (ValidationError FailedToLoadFile), st)
      | (Some True, Some sz, Some buf) \<Rightarrow>
          if sz > maxFileSize (config st) then (Inl (ValidationError FileTooLarge), st)
          else
            let popped = last (splitChar (cu CHR ''/'') (input st));
                replaced = removeFirst (js ''.crx'') popped;
                filename = (if replaced = [] then js ''local_extension'' else replaced)
            in (Inr (),
                st\<lparr>buffer := Some buf,
                   extensionInfo := \<lparr>info_id = Some (js ''local''),
                                     info_name = Some (sanitizeFilename filename)\<rparr>\<rparr>)
      | _ \<Rightarrow> (Inl (ValidationError FileNotFoundOrInaccessible), st))"

definition loadInput :: "env \<Rightarrow> extractor \<Rightarrow> (error + unit) \<times> extractor" where
  "loadInput e st =
     (case findExtensionId (input st) of
        Some extensionId \<Rightarrow>
          (case downloadFromWebStore e extensionId st of
             (Inl err, st') \<Rightarrow> (Inl err, st')
           | (Inr buf, st') \<Rightarrow> (Inr (), st'\<lparr>buffer := Some buf\<rparr>))
      | None \<Rightarrow> loadLocalFile e st)"

text \<open>
  The summary line of \<open>unzip -l\<close> is matched against \<open>/^\s*(\d+)\s+(\d+)\s+files?/\<close>.
  The classes \<open>\s\<close> and \<open>\d\<close> are disjoint, so each greedy run is the maximal one;
  \<open>\s\<close> is the white space of \<open>trim\<close>. \<open>parseInt\<close> reads a run of decimal digits.
\<close>

definition isDigit :: "jschar \<Rightarrow> bool" where
  "isDigit c = (cu CHR ''0'' \<le> c \<and> c \<le> cu CHR ''9'')"

definition parseInt :: "jsstring \<Rightarrow> nat" where
  "parseInt ds = foldl (\<lambda>n d. 10 * n + unat (d - cu CHR ''0'')) 0 ds"

definition matchSummary :: "jsstring \<Rightarrow> (jsstring \<times> jsstring) option" where
  "matchSummary line =
     (let s1 = dropWhile isWhiteSpace line;
          d1 = takeWhile isDigit s1;
          s2 = dropWhile isDigit s1;
          s3 = dropWhile isWhiteSpace s2;
          d2 = takeWhile isDigit s3;
          s4 = dropWhile isDigit s3;
          s5 = dropWhile isWhiteSpace s4
      in if d1 \<noteq> [] \<and> length s3 < length s2 \<and> d2 \<noteq> [] \<and> length s5 < length s4
            \<and> startsWith s5 (js ''file'')
         then Some (d1, d2) else None)"

definition getZipInfo :: "env \<Rightarrow> jsstring \<Rightarrow> world \<Rightarrow> (error + ZipInfo) \<times> world" where
  "getZipInfo e zipPath w =
     (case attempt e (UnzipList zipPath) w of
        (False, w1) \<Rightarrow> (Inl (ExtractionError FailedToAnalyzeZip), w1)
      | (True, w1) \<Rightarrow>
          (case fs w1 zipPath of
             Some (File data) \<Rightarrow>
               (let lines = splitChar 0x0A (unzipListing e data);
                    summaryLine = (if length lines \<ge> 2 then lines ! (length lines - 2) else [])
                in case matchSummary summaryLine of
                     None \<Rightarrow> (Inl (ExtractionError FailedToAnalyzeZip), w1)
                   | Some (m1, m2) \<Rightarrow>
                       (case attempt e (StatFile zipPath) w1 of
                          (False, w2) \<Rightarrow> (Inl (ExtractionError FailedToAnalyzeZip), w2)
                        | (True, w2) \<Rightarrow>
                            (Inr \<lparr> fileCount = parseInt m2,
                                   uncompressedSize = parseInt m1,
                                   compressedSize = length data \<rparr>, w2)))
           | _ \<Rightarrow> (Inl (ExtractionError FailedToAnalyzeZip), w1)))"

definition validateZipSecurity ::
  "env \<Rightarrow> ExtractorConfig \<Rightarrow> jsstring \<Rightarrow> world \<Rightarrow> (error + unit) \<times> world" where
  "validateZipSecurity e cfg zipPath w =
     (case getZipInfo e zipPath w of
        (Inl err, w') \<Rightarrow> (Inl err, w')
      | (Inr info, w') \<Rightarrow> (checkZipInfo cfg info, w'))"

definition ensureDirectory ::
  "env \<Rightarrow> PathValidator \<Rightarrow> jsstring \<Rightarrow> world \<Rightarrow> (error + unit) \<times> world" where
  "ensureDirectory e pv path w =
     (case (case validatePath (proc e) pv path None of
              Inl err \<Rightarrow> (Inl err, w)
            | Inr validPath \<Rightarrow> mkdirP e validPath w) of
        (Inl err, w') \<Rightarrow>
          (if isSecurityError err then Inl err else Inl (ExtractionError FailedToCreateDirectory), w')
      | (Inr u, w') \<Rightarrow> (Inr u, w'))"

text \<open>The decimal digits of a number, as a template literal prints it.\<close>

function showNat :: "nat \<Rightarrow> jsstring" where
  "showNat n =
     (if n < 10 then [cu CHR ''0'' + of_nat n]
      else showNat (n div 10) @ [cu CHR ''0'' + of_nat (n mod 10)])"
  by pat_completeness auto
termination
  by (relation "measure id") auto

declare showNat.simps [simp del]

text \<open>The \<open>try\<close> block of \<open>extractZip\<close>.\<close>

definition extractZip_try ::
  "env \<Rightarrow> ExtractorConfig \<Rightarrow> PathValidator \<Rightarrow> bytes \<Rightarrow> jsstring \<Rightarrow> jsstring \<Rightarrow> jsstring
     \<Rightarrow> world \<Rightarrow> (error + unit) \<times> world" where
  "extractZip_try e cfg pv zipData outputDir tempDir zipPath w =
     (case ensureDirectory e pv tempDir w of
        (Inl err, w1) \<Rightarrow> (Inl err, w1)
      | (Inr u1, w1) \<Rightarrow>
          (case writeFile e zipPath zipData w1 of
             (Inl err, w2) \<Rightarrow> (Inl err, w2)
           | (Inr u2, w2) \<Rightarrow>
               (case validateZipSecurity e cfg zipPath w2 of
                  (Inl err, w3) \<Rightarrow> (Inl err, w3)
                | (Inr u3, w3) \<Rightarrow>
                    (case unzipInto e zipPath tempDir w3 of
                       (Inl err, w4) \<Rightarrow> (Inl err, w4)
                     | (Inr exitCode, w4) \<Rightarrow>
                         if exitCode \<noteq> 0 then (Inl (ExtractionError UnzipFailedWithExitCode), w4)
                         else (Inr (), moveAll e tempDir outputDir w4)))))"

text \<open>
  \<open>extractZip\<close>: the \<open>try\<close> block, the \<open>catch\<close> clause that handles whatever the block
  threw, and the \<open>finally\<close> clause, whose own failure is swallowed.
\<close>

definition extractZip ::
  "env \<Rightarrow> ExtractorConfig \<Rightarrow> PathValidator \<Rightarrow> bytes \<Rightarrow> jsstring \<Rightarrow> world
     \<Rightarrow> (error + unit) \<times> world" where
  "extractZip e cfg pv zipData outputDir w =
     (let timestamp = now e;
          tempDir = join [outputDir, js ''.tmp_'' @ showNat timestamp];
          zipPath = join [tempDir, js ''archive.zip''];
          (r2, w2) =
            (case extractZip_try e cfg pv zipData outputDir tempDir zipPath w of
               (Inr u, w1) \<Rightarrow> (Inr u, w1)
             | (Inl err, w1) \<Rightarrow>
                 (let fallbackPath = join [outputDir, js ''failed_extraction.zip'']
                  in case writeFile e fallbackPath zipData w1 of
                       (Inl err', w1') \<Rightarrow> (Inl err', w1')
                     | (Inr u, w1') \<Rightarrow>
                         (Inl (ExtractionError (ExtractionFailedZipSavedTo fallbackPath)), w1')))
      in (r2, snd (rmRf e tempDir w2)))"

section \<open>Manifest (src/validators/manifest.ts)\<close>

fun isJString :: "json \<Rightarrow> bool" where
  "isJString (JString s) = True"
| "isJString j = False"

text \<open>An array is an object to \<open>typeof\<close>, and has no \<open>name\<close>.\<close>

definition validateManifest :: "json \<Rightarrow> error + (jsstring \<times> json) list" where
  "validateManifest data =
     (case data of
        JObject manifest \<Rightarrow>
          (case map_of manifest (js ''name'') of
             Some (JString n) \<Rightarrow>
               if trim n = [] then Inl (ValidationError ManifestMissingName)
               else
                 (case map_of manifest (js ''version'') of
                    Some (JString v) \<Rightarrow>
                      if v = [] then Inl (ValidationError ManifestMissingVersion)
                      else
                        (case map_of manifest (js ''manifest_version'') of
                           Some (JNumber mv) \<Rightarrow>
                             if \<not> (case map_of manifest (js ''description'') of
                                      None \<Rightarrow> True
                                    | Some d \<Rightarrow> isJString d)
                             then Inl (ValidationError ManifestDescriptionNotString)
                             else
                               (case map_of manifest (js ''permissions'') of
                                  None \<Rightarrow> Inr manifest
                                | Some (JArray ps) \<Rightarrow>
                                    if list_all isJString ps then Inr manifest
                                    else Inl (ValidationError ManifestPermissionsNotStrings)
                                | Some other \<Rightarrow> Inl (ValidationError ManifestPermissionsNotStrings))
                         | _ \<Rightarrow> Inl (ValidationError ManifestMissingManifestVersion))
                  | _ \<Rightarrow> Inl (ValidationError ManifestMissingVersion))
           | _ \<Rightarrow> Inl (ValidationError ManifestMissingName))
      | JArray xs \<Rightarrow> Inl (ValidationError ManifestMissingName)
      | _ \<Rightarrow> Inl (ValidationError ManifestMustBeObject))"

text \<open>
  \<open>readManifest\<close> returns \<open>null\<close> when the file is missing, cannot be parsed or is not
  valid; otherwise it stores the sanitized name.
\<close>

definition readManifest ::
  "env \<Rightarrow> jsstring \<Rightarrow> world \<Rightarrow> extractor \<Rightarrow> (jsstring \<times> json) list option \<times> extractor" where
  "readManifest e outputDir w st =
     (case fs w (join [outputDir, js ''manifest.json'']) of
        Some (File content) \<Rightarrow>
          (case parseJson e content of
             None \<Rightarrow> (None, st)
           | Some rawData \<Rightarrow>
               (case validateManifest rawData of
                  Inl err \<Rightarrow> (None, st)
                | Inr manifest \<Rightarrow>
                    (case map_of manifest (js ''name'') of
                       Some (JString n) \<Rightarrow>
                         (Some manifest,
                          st\<lparr>extensionInfo := (extensionInfo st)\<lparr>info_name := Some (sanitizeFilename n)\<rparr>\<rparr>)
                     | _ \<Rightarrow> (Some manifest, st))))
      | _ \<Rightarrow> (None, st))"

section \<open>The main extraction method\<close>

text \<open>
  The first statements of \<open>extract\<close>, which touch no file: load the input, parse the
  header, slice the payload, and choose and validate the output directory. They return the
  container bytes, the payload, the extension name and the validated output directory.
\<close>

definition extract_prepare ::
  "env \<Rightarrow> jsstring option \<Rightarrow> extractor
     \<Rightarrow> (error + bytes \<times> bytes \<times> jsstring \<times> jsstring) \<times> extractor" where
  "extract_prepare e outputDir st =
     (case loadInput e st of
        (Inl err, st1) \<Rightarrow> (Inl err, st1)
      | (Inr u, st1) \<Rightarrow>
          (case buffer st1 of
             None \<Rightarrow> (Inl (Error FailedToLoadInput), st1)
           | Some buf \<Rightarrow>
               (case parseHeader st1 of
                  (Inl err, st2) \<Rightarrow> (Inl err, st2)
                | (Inr header, st2) \<Rightarrow>
                    (let zipData = drop (zipOffset header) buf;
                         extensionName =
                           (case truthy (info_name (extensionInfo st2)) of
                              None \<Rightarrow> js ''unknown_extension''
                            | Some n \<Rightarrow> n);
                         candidate =
                           (case truthy outputDir of
                              Some d \<Rightarrow> d
                            | None \<Rightarrow> join [extensionsDir (config st2), extensionName])
                     in case validatePath (proc e) (pathValidator st2) candidate None of
                          Inl err \<Rightarrow> (Inl err, st2)
                        | Inr outDir \<Rightarrow> (Inr (buf, zipData, extensionName, outDir), st2)))))"

text \<open>
  The remaining statements, which write: create the parent of the output directory,
  clear and recreate the output directory, save the container file, extract the payload,
  read the manifest.
\<close>

definition extract_write ::
  "env \<Rightarrow> bytes \<Rightarrow> bytes \<Rightarrow> jsstring \<Rightarrow> jsstring \<Rightarrow> extractor \<Rightarrow> world
     \<Rightarrow> (error + unit) \<times> extractor \<times> world" where
  "extract_write e buf zipData extensionName outDir st w =
     (let cfg = config st; pv = pathValidator st in
      case ensureDirectory e pv (dirname outDir) w of
        (Inl err, w1) \<Rightarrow> (Inl err, st, w1)
      | (Inr u1, w1) \<Rightarrow>
          (case rmRf e outDir w1 of
             (Inl err, w2) \<Rightarrow> (Inl err, st, w2)
           | (Inr u2, w2) \<Rightarrow>
               (case mkdirP e outDir w2 of
                  (Inl err, w3) \<Rightarrow> (Inl err, st, w3)
                | (Inr u3, w3) \<Rightarrow>
                    (case validatePath (proc e) pv
                            (join [extensionsDir cfg, extensionName @ js ''.crx'']) None of
                       Inl err \<Rightarrow> (Inl err, st, w3)
                     | Inr validCrxPath \<Rightarrow>
                         (case ensureDirectory e pv (dirname validCrxPath) w3 of
                            (Inl err, w4) \<Rightarrow> (Inl err, st, w4)
                          | (Inr u4, w4) \<Rightarrow>
                              (case writeFile e validCrxPath buf w4 of
                                 (Inl err, w5) \<Rightarrow> (Inl err, st, w5)
                               | (Inr u5, w5) \<Rightarrow>
                                   (case extractZip e cfg pv zipData outDir w5 of
                                      (Inl err, w6) \<Rightarrow> (Inl err, st, w6)
                                    | (Inr u6, w6) \<Rightarrow>
                                        (Inr (), snd (readManifest e outDir w6 st), w6))))))))"

text \<open>\<open>CRXExtractor.extract\<close>.\<close>

definition extract_crx ::
  "env \<Rightarrow> jsstring option \<Rightarrow> extractor \<Rightarrow> world \<Rightarrow> (error + unit) \<times> extractor \<times> world" where
  "extract_crx e outputDir st w =
     (case extract_prepare e outputDir st of
        (Inl err, st') \<Rightarrow> (Inl err, st', w)
      | (Inr (buf, zipData, extensionName, outDir), st') \<Rightarrow>
          extract_write e buf zipData extensionName outDir st' w)"

section \<open>Auxiliary notions\<close>

text \<open>
  The lexically normalized absolute form of a candidate as the specification words it
  (steps 1 and 2 of its path guard), for comparison with what \<open>validatePath\<close> computes:
  an absolute candidate is taken verbatim, a relative one is put behind the working
  directory and a separator; then the \<open>.\<close> and \<open>..\<close> segments are resolved lexically,
  clamping at the root (which \<open>normalize_path\<close> does).
\<close>

definition spec_lexicalAbsolute :: "jsstring \<Rightarrow> jsstring \<Rightarrow> jsstring" where
  "spec_lexicalAbsolute wd p =
     normalize_path (if startsWith p (js ''/'') then p else wd @ js ''/'' @ p)"

text \<open>
  The value of \<open>sanitized\<close> in \<open>sanitizeFilename\<close> before the length is limited, and
  the strings in which no two dots are adjacent.
\<close>

definition clean :: "jsstring \<Rightarrow> jsstring" where
  "clean name = trim (replaceDotRuns (map (\<lambda>c. if illegalChar c then cu CHR ''_'' else c) name))"

fun dotFree :: "jsstring \<Rightarrow> bool" where
  "dotFree (c # d # cs) = (\<not> (isDot c \<and> isDot d) \<and> dotFree (d # cs))"
| "dotFree cs = True"

text \<open>The moves into the output directory that a world has seen attempted.\<close>

fun isMove :: "syscall \<Rightarrow> bool" where
  "isMove (MoveAll s d) = True"
| "isMove c = False"

definition moves :: "world \<Rightarrow> syscall list" where
  "moves w = filter isMove (trace w)"

section \<open>Concrete inputs\<close>

text \<open>A version-3 container: magic, version 3, header size 2, two header bytes, two payload bytes.\<close>

definition sampleV3 :: bytes where
  "sampleV3 = [0x43, 0x72, 0x32, 0x34, 3, 0, 0, 0, 2, 0, 0, 0, 0xAA, 0xBB, 0x50, 0x4B]"

text \<open>
  An environment in which nothing fails, the local input file holds \<open>sampleV3\<close>, and
  \<open>unzip -l\<close> prints a heading and the given summary line; and a world in which an archive
  of \<open>n\<close> bytes has been staged.
\<close>

definition listingEnv :: "jsstring \<Rightarrow> env" where
  "listingEnv summary =
     \<lparr> proc = \<lparr>cwd = js ''/w'', metaDir = js ''/app/src/utils''\<rparr>,
       now = 7,
       fails = (\<lambda>n. False),
       fetched = FetchError,
       inputExists = Some True,
       inputStat = Some 16,
       inputArrayBuffer = Some sampleV3,
       unzipListing = (\<lambda>d. js ''  Length      Date    Time    Name'' @ [0x0A] @ summary @ [0x0A]),
       unzipEntries = (\<lambda>d. []),
       unzipExitCode = (\<lambda>d. 0),
       parseJson = (\<lambda>d. None) \<rparr>"


text \<open>
  A run that the security gate rejects: \<open>unzip -l\<close> reports 1000000 bytes in one file for
  the two-byte payload of \<open>sampleV3\<close>. The extractor is the one the constructor builds for
  the input \<open>ext.crx\<close> in the working directory \<open>/w\<close> with the default configuration; the
  output directory \<open>out\<close> holds a file from an earlier extraction.
\<close>

definition gateEnv :: env where
  "gateEnv = listingEnv (js ''  1000000                     1 file'')"

definition rootValidator :: PathValidator where
  "rootValidator = \<lparr>resolvedAllowedPaths = [js ''/w''], workingDirectory = js ''/w''\<rparr>"

definition localExtractor :: extractor where
  "localExtractor =
     \<lparr> buffer = None, offset = 0, input = js ''ext.crx'', config = DEFAULT_CONFIG,
       pathValidator = rootValidator,
       extensionInfo = \<lparr>info_id = None, info_name = None\<rparr> \<rparr>"

definition loaded :: extractor where
  "loaded = localExtractor\<lparr>buffer := Some sampleV3, offset := 12,
        extensionInfo := \<lparr>info_id = Some (js ''local''), info_name = Some (js ''ext'')\<rparr>\<rparr>"

definition priorWorld :: world where
  "priorWorld = \<lparr> fs = [js ''/w/out/old.txt'' \<mapsto> File [1]], trace = [] \<rparr>"

text \<open>The world after the payload has been staged in \<open>w\<close> and inspected.\<close>

definition staged :: "world \<Rightarrow> world" where
  "staged w =
     w\<lparr>trace := trace w @ [MkdirP (js ''/w/out/.tmp_7''),
                             WriteFile (js ''/w/out/.tmp_7/archive.zip'') [0x50, 0x4B],
                             UnzipList (js ''/w/out/.tmp_7/archive.zip''),
                             StatFile (js ''/w/out/.tmp_7/archive.zip'')],
        fs := (makeDirs (butlast (ancestors [] (js ''/w/out/.tmp_7/archive.zip'')))
                 (makeDirs (ancestors [] (js ''/w/out/.tmp_7'')) (fs w)))
              (js ''/w/out/.tmp_7/archive.zip'' \<mapsto> File [0x50, 0x4B])\<rparr>"

text \<open>An environment in which the local input file does not exist.\<close>

definition missingEnv :: env where
  "missingEnv = gateEnv\<lparr>inputExists := Some False\<rparr>"

text \<open>A process in a project directory, and a name of 201 code units.\<close>

definition homeProc :: process where
  "homeProc = \<lparr>cwd = js ''/home/user/project'', metaDir = js ''/app/src/utils''\<rparr>"

definition longName :: jsstring where
  "longName = replicate 199 (cu CHR ''a'') @ js '' b''"

section \<open>Properties\<close>

subsection \<open>Header parsing\<close>

lemma readUInt32LE_Some:
  "buffer st = Some buf \<Longrightarrow>
   readUInt32LE st = (case readUInt32LEAt buf (offset st) of
                        Inl e \<Rightarrow> (Inl e, st)
                      | Inr v \<Rightarrow> (Inr v, st\<lparr>offset := offset st + 4\<rparr>))"
  by (simp add: readUInt32LE_def)

text \<open>
  C5. Whenever header parsing accepts a buffer, the version is 2 or 3; for version 3 the
  payload offset is 12 plus the header size read at byte 8; for version 2 it is 16 plus the
  public-key length read at byte 8 plus the signature length read at byte 12; and the
  payload offset is strictly less than the length of the buffer.
\<close>

theorem parseHeader_payload_offset:
  assumes ok: "parseHeader st = (Inr h, st')"
  shows "\<exists>buf. buffer st = Some buf
     \<and> (version h = 2 \<or> version h = 3)
     \<and> (version h = 3 \<longrightarrow>
          (\<exists>headerSize. readUInt32LEAt buf 8 = Inr headerSize \<and> zipOffset h = 12 + headerSize))
     \<and> (version h = 2 \<longrightarrow>
          (\<exists>publicKeyLength signatureLength.
             readUInt32LEAt buf 8 = Inr publicKeyLength
             \<and> readUInt32LEAt buf 12 = Inr signatureLength
             \<and> zipOffset h = 16 + publicKeyLength + signatureLength))
     \<and> zipOffset h < length buf"
proof -
  obtain buf where buf: "buffer st = Some buf"
    using ok by (cases "buffer st") (simp_all add: parseHeader_def)
  note rd = readUInt32LE_Some [where buf = buf]
  obtain magic where r0: "readUInt32LEAt buf 0 = Inr magic"
    using ok buf by (cases "readUInt32LEAt buf 0") (simp_all add: parseHeader_def rd)
  have magic: "magic = CRX_MAGIC"
    using ok buf r0 by (cases "magic = CRX_MAGIC") (simp_all add: parseHeader_def rd)
  obtain v where r4: "readUInt32LEAt buf 4 = Inr v"
    using ok buf r0 magic by (cases "readUInt32LEAt buf 4") (simp_all add: parseHeader_def rd)
  consider (v2) "v = 2" | (v3) "v = 3" | (other) "v \<noteq> 2" "v \<noteq> 3"
    by blast
  then show ?thesis
  proof cases
    case other
    with ok buf r0 magic r4 show ?thesis
      by (simp add: parseHeader_def rd CRX_VERSION_2_def CRX_VERSION_3_def)
  next
    case v3
    obtain headerSize where r8: "readUInt32LEAt buf 8 = Inr headerSize"
      using ok buf r0 magic r4 v3
      by (cases "readUInt32LEAt buf 8")
         (simp_all add: parseHeader_def rd CRX_VERSION_2_def CRX_VERSION_3_def)
    have "h = \<lparr>version = 3, zipOffset = 12 + headerSize\<rparr> \<and> 12 + headerSize < length buf"
      using ok buf r0 magic r4 v3 r8
      by (cases "12 + headerSize < length buf")
         (simp_all add: parseHeader_def rd CRX_VERSION_2_def CRX_VERSION_3_def)
    with buf r8 show ?thesis by simp
  next
    case v2
    obtain publicKeyLength where r8: "readUInt32LEAt buf 8 = Inr publicKeyLength"
      using ok buf r0 magic r4 v2
      by (cases "readUInt32LEAt buf 8")
         (simp_all add: parseHeader_def rd CRX_VERSION_2_def CRX_VERSION_3_def)
    obtain signatureLength where r12: "readUInt32LEAt buf 12 = Inr signatureLength"
      using ok buf r0 magic r4 v2 r8
      by (cases "readUInt32LEAt buf 12")
         (simp_all add: parseHeader_def rd CRX_VERSION_2_def CRX_VERSION_3_def)
    have "h = \<lparr>version = 2, zipOffset = 16 + publicKeyLength + signatureLength\<rparr>
          \<and> 16 + publicKeyLength + signatureLength < length buf"
      using ok buf r0 magic r4 v2 r8 r12
      by (cases "16 + publicKeyLength + signatureLength < length buf")
         (simp_all add: parseHeader_def rd CRX_VERSION_2_def CRX_VERSION_3_def)
    with buf r8 r12 show ?thesis by simp
  qed
qed

lemma parseHeader_sampleV3:
  "parseHeader \<lparr>buffer = Some sampleV3, offset = 0\<rparr>
     = (Inr \<lparr>version = 3, zipOffset = 14\<rparr>, \<lparr>buffer = Some sampleV3, offset = 12\<rparr>)"
  by (simp add: parseHeader_def readUInt32LE_def readUInt32LEAt_def sampleV3_def CRX_MAGIC_def
        CRX_VERSION_2_def CRX_VERSION_3_def)

theorem parseHeader_payload_offset_witness:
  "parseHeader \<lparr>buffer = Some sampleV3, offset = 0\<rparr>
     = (Inr \<lparr>version = 3, zipOffset = 14\<rparr>, \<lparr>buffer = Some sampleV3, offset = 12\<rparr>)
   \<and> readUInt32LEAt sampleV3 8 = Inr 2 \<and> (14::nat) = 12 + 2 \<and> 14 < length sampleV3"
  using parseHeader_payload_offset [OF parseHeader_sampleV3] parseHeader_sampleV3
  by (simp add: sampleV3_def)

subsection \<open>Security gate\<close>






subsection \<open>Path validation\<close>

text \<open>The constructor is where the working directory of the process is read.\<close>

lemma newPathValidator_snapshot:
  "workingDirectory (newPathValidator p allowedPaths) = cwd p"
  by (simp add: newPathValidator_def Let_def)

lemma splitChar_nonempty: "splitChar sep s \<noteq> []"
  by (induction s) (auto split: list.splits)

text \<open>
  C9. The outcome of \<open>validatePath\<close> for a validator, a candidate and an optional base
  does not depend on the working directory of the process at the time of the call: two
  calls made under different working directories give the same outcome.
\<close>

theorem validatePath_ignores_process_cwd:
  "validatePath (p\<lparr>cwd := c1\<rparr>) pv path baseDir = validatePath (p\<lparr>cwd := c2\<rparr>) pv path baseDir"
  by (cases "truthy baseDir") (simp_all add: validatePath_def)

lemmas path_defs = validatePath_def truthy_def isAllowed_def normalize_path_def normalizeStep_def
  join_def removeTrailingSlash_def notSlash_def startsWith_def Let_def newPathValidator_def

text \<open>
  For an absolute candidate, \<open>validatePath\<close> accepts exactly when the normalized candidate
  is a normalized allowed root or begins with one followed by a slash.
\<close>

lemma validatePath_absolute_iff:
  assumes "startsWith path (js ''/'')"
  shows "validatePath pr pv path None = Inr n \<longleftrightarrow>
           n = normalize_path path
           \<and> (\<exists>r \<in> set (resolvedAllowedPaths pv).
                 n = normalize_path r \<or> startsWith n (normalize_path r @ js ''/''))"
  using assms by (auto simp: validatePath_def truthy_def isAllowed_def Let_def list_ex_iff)

lemma validatePath_parent_escape_rejected:
  "validatePath homeProc (newPathValidator homeProc [js ''.'']) (js ''../../etc/passwd'') None
     = Inl (SecurityError PathResolvesOutsideAllowed)"
  by (simp add: path_defs homeProc_def)

text \<open>
  C3. In the working directory \<open>/home/user/project\<close> with the single allowed root \<open>.\<close>,
  the relative candidate \<open>./safe/../../../etc/passwd\<close> is accepted and resolved to
  \<open>/home/user/project/etc/passwd\<close>, although its lexically normalized absolute form is
  \<open>/home/etc/passwd\<close>, which is neither the root nor below it. The third replacement of
  \<open>PathUtils.join\<close> takes a \<open>..\<close> segment that follows a removed pair for an ordinary
  segment: \<open>join('a/b/c', '../../d')\<close> is \<open>a/b/../d\<close>.
\<close>

theorem validatePath_accepts_escaping_candidate:
  "validatePath homeProc (newPathValidator homeProc [js ''.'']) (js ''./safe/../../../etc/passwd'') None
     = Inr (js ''/home/user/project/etc/passwd'')
   \<and> spec_lexicalAbsolute (cwd homeProc) (js ''./safe/../../../etc/passwd'') = js ''/home/etc/passwd''
   \<and> \<not> isAllowed (newPathValidator homeProc [js ''.'']) (js ''/home/etc/passwd'')
   \<and> join [js ''a/b/c'', js ''../../d''] = js ''a/b/../d''"
  by (simp add: path_defs homeProc_def spec_lexicalAbsolute_def)

subsection \<open>Name sanitization\<close>

lemma sanitizeFilename_clean:
  "sanitizeFilename name =
     (if clean name = [] then js ''unnamed''
      else if length (clean name) > 200 then take 200 (clean name) else clean name)"
  by (auto simp: sanitizeFilename_def clean_def Let_def)

lemma replaceDotRuns_nondot: "\<not> isDot d \<Longrightarrow> replaceDotRuns (d # cs) = d # replaceDotRuns cs"
  by (cases cs) simp_all

lemma dotFree_Cons: "dotFree (c # cs) = ((cs \<noteq> [] \<longrightarrow> \<not> (isDot c \<and> isDot (hd cs))) \<and> dotFree cs)"
  by (cases cs) simp_all

lemma dotFree_replaceDotRuns: "dotFree (replaceDotRuns s)"
proof (induction s rule: replaceDotRuns.induct)
  case 1 show ?case by simp
next
  case (2 c) show ?case by simp
next
  case (3 c d cs)
  show ?case
  proof (cases "isDot c \<and> isDot d")
    case True
    have "\<not> isDot (cu CHR ''_'')" by (simp add: isDot_def)
    with True 3 show ?thesis by (simp add: dotFree_Cons)
  next
    case False
    show ?thesis
    proof (cases "isDot d")
      case True
      with False have c: "\<not> isDot c" by simp
      with False 3 show ?thesis by (simp add: dotFree_Cons)
    next
      case d: False
      with False 3 show ?thesis
        by (simp add: dotFree_Cons replaceDotRuns_nondot)
    qed
  qed
qed

lemma replaceDotRuns_dotFree: "dotFree s \<Longrightarrow> replaceDotRuns s = s"
  by (induction s rule: replaceDotRuns.induct) auto

lemma dotFree_append: "dotFree (a @ b) \<Longrightarrow> dotFree a \<and> dotFree b"
proof (induction a)
  case Nil then show ?case by simp
next
  case (Cons x a)
  then show ?case by (cases a) (auto simp: dotFree_Cons)
qed

lemma dotFree_nodots: "\<forall>c \<in> set s. \<not> isDot c \<Longrightarrow> dotFree s"
  by (induction s) (auto simp: dotFree_Cons)

lemma set_replaceDotRuns: "set (replaceDotRuns s) \<subseteq> insert (cu CHR ''_'') (set s)"
proof (induction s rule: replaceDotRuns.induct)
  case (3 c d cs)
  then show ?case using set_dropWhileD [of _ isDot cs] by (auto split: if_splits)
qed simp_all

lemma map_legal:
  "\<forall>c \<in> set s. \<not> illegalChar c \<Longrightarrow> map (\<lambda>c. if illegalChar c then cu CHR ''_'' else c) s = s"
  by (induction s) auto

lemma trim_decomp: "\<exists>a b. s = a @ trim s @ b"
proof -
  have "s = takeWhile isWhiteSpace s @ dropWhile isWhiteSpace s" by simp
  moreover have "dropWhile isWhiteSpace s
      = trim s @ rev (takeWhile isWhiteSpace (rev (dropWhile isWhiteSpace s)))"
    unfolding trim_def
    by (metis rev_append rev_rev_ident takeWhile_dropWhile_id)
  ultimately show ?thesis by metis
qed

lemma trim_ends:
  assumes "trim s \<noteq> []"
  shows "\<not> isWhiteSpace (hd (trim s))" "\<not> isWhiteSpace (last (trim s))"
proof -
  let ?u = "dropWhile isWhiteSpace s"
  let ?v = "dropWhile isWhiteSpace (rev ?u)"
  from assms have v: "?v \<noteq> []" by (simp add: trim_def)
  then have "\<not> isWhiteSpace (hd ?v)" by (rule hd_dropWhile)
  then show "\<not> isWhiteSpace (last (trim s))" using v by (simp add: trim_def last_rev)
  from v have u: "?u \<noteq> []" by (metis dropWhile.simps(1) rev.simps(1))
  then have hu: "\<not> isWhiteSpace (hd ?u)" by (rule hd_dropWhile)
  have "?u = trim s @ rev (takeWhile isWhiteSpace (rev ?u))"
    unfolding trim_def by (metis rev_append rev_rev_ident takeWhile_dropWhile_id)
  then have "hd ?u = hd (trim s)" using assms by (metis hd_append2)
  with hu show "\<not> isWhiteSpace (hd (trim s))" by simp
qed

lemma trim_id:
  assumes "s \<noteq> []" "\<not> isWhiteSpace (hd s)" "\<not> isWhiteSpace (last s)"
  shows "trim s = s"
proof -
  from assms have "dropWhile isWhiteSpace s = s" by (cases s) simp_all
  moreover from assms have "dropWhile isWhiteSpace (rev s) = rev s"
    by (cases "rev s") (simp_all add: last_rev [symmetric] hd_rev)
  ultimately show ?thesis by (simp add: trim_def)
qed

lemma clean_legal: "c \<in> set (clean name) \<Longrightarrow> \<not> illegalChar c"
proof -
  assume c: "c \<in> set (clean name)"
  let ?m = "map (\<lambda>c. if illegalChar c then cu CHR ''_'' else c) name"
  obtain a b where "replaceDotRuns ?m = a @ clean name @ b"
    using trim_decomp [of "replaceDotRuns ?m"] by (auto simp: clean_def)
  then have "c \<in> set (replaceDotRuns ?m)" using c by (metis Un_iff set_append)
  then have "c = cu CHR ''_'' \<or> c \<in> set ?m" using set_replaceDotRuns [of ?m] by auto
  moreover have "\<not> illegalChar (cu CHR ''_'')" by (simp add: illegalChar_def)
  ultimately show ?thesis by (auto split: if_splits)
qed

lemma clean_dotFree: "dotFree (clean name)"
proof -
  let ?m = "map (\<lambda>c. if illegalChar c then cu CHR ''_'' else c) name"
  obtain a b where "replaceDotRuns ?m = a @ clean name @ b"
    using trim_decomp [of "replaceDotRuns ?m"] by (auto simp: clean_def)
  then show ?thesis using dotFree_replaceDotRuns [of ?m] dotFree_append by metis
qed

lemma sanitize_props:
  "sanitizeFilename x \<noteq> []"
  "length (sanitizeFilename x) \<le> 200"
  "\<not> isWhiteSpace (hd (sanitizeFilename x))"
  "dotFree (sanitizeFilename x)"
  "c \<in> set (sanitizeFilename x) \<Longrightarrow> \<not> illegalChar c"
proof -
  show "sanitizeFilename x \<noteq> []" by (auto simp: sanitizeFilename_clean)
  show "length (sanitizeFilename x) \<le> 200" by (auto simp: sanitizeFilename_clean)
  show "\<not> isWhiteSpace (hd (sanitizeFilename x))"
    using trim_ends(1) [of "replaceDotRuns (map (\<lambda>c. if illegalChar c then cu CHR ''_'' else c) x)"]
    by (auto simp: sanitizeFilename_clean clean_def isWhiteSpace_def hd_take)
  show "dotFree (sanitizeFilename x)"
    using clean_dotFree [of x] dotFree_append [of "take 200 (clean x)" "drop 200 (clean x)"]
    by (auto simp: sanitizeFilename_clean isDot_def)
  show "c \<in> set (sanitizeFilename x) \<Longrightarrow> \<not> illegalChar c"
    using clean_legal [of c x]
    by (auto simp: sanitizeFilename_clean illegalChar_def dest: in_set_takeD split: if_splits)
qed

lemma sanitize_fixpoint:
  assumes "y \<noteq> []" "length y \<le> 200" "\<not> isWhiteSpace (hd y)" "\<not> isWhiteSpace (last y)"
    "dotFree y" "\<forall>c \<in> set y. \<not> illegalChar c"
  shows "sanitizeFilename y = y"
proof -
  have "map (\<lambda>c. if illegalChar c then cu CHR ''_'' else c) y = y"
    using assms(6) by (rule map_legal)
  then have "clean y = y"
    using assms by (simp add: clean_def replaceDotRuns_dotFree trim_id)
  then show ?thesis using assms by (simp add: sanitizeFilename_clean)
qed

text \<open>
  C6, as the code has it. For every input, \<open>sanitizeFilename\<close> returns a non-empty string
  of at most 200 code units that contains no slash, no backslash and no control character
  from U+0000 to U+001F. It is idempotent on every input whose result does not end in
  white space, in particular on every input that the length limit does not cut.
\<close>

theorem sanitizeFilename_safe:
  "sanitizeFilename x \<noteq> []
   \<and> length (sanitizeFilename x) \<le> 200
   \<and> (\<forall>c \<in> set (sanitizeFilename x). c \<noteq> 0x2F \<and> c \<noteq> 0x5C \<and> \<not> c \<le> 0x1F)
   \<and> (\<not> isWhiteSpace (last (sanitizeFilename x))
        \<longrightarrow> sanitizeFilename (sanitizeFilename x) = sanitizeFilename x)
   \<and> (length (clean x) \<le> 200
        \<longrightarrow> sanitizeFilename (sanitizeFilename x) = sanitizeFilename x)"
proof -
  have idem: "sanitizeFilename (sanitizeFilename x) = sanitizeFilename x"
    if "\<not> isWhiteSpace (last (sanitizeFilename x))"
    using that sanitize_props [where x = x] by (intro sanitize_fixpoint) auto
  have "\<not> isWhiteSpace (last (sanitizeFilename x))" if "length (clean x) \<le> 200"
    using that trim_ends(2) [of "replaceDotRuns (map (\<lambda>c. if illegalChar c then cu CHR ''_'' else c) x)"]
    by (auto simp: sanitizeFilename_clean clean_def isWhiteSpace_def)
  with idem sanitize_props [where x = x] show ?thesis
    by (auto simp: illegalChar_def)
qed

theorem sanitizeFilename_safe_witness:
  "sanitizeFilename (js ''../a b/'') = js ''__a b_''
   \<and> length (sanitizeFilename (js ''../a b/'')) \<le> 200
   \<and> sanitizeFilename (sanitizeFilename (js ''../a b/'')) = sanitizeFilename (js ''../a b/'')"
proof -
  have e: "sanitizeFilename (js ''../a b/'') = js ''__a b_''"
    by (simp add: sanitizeFilename_def trim_def illegalChar_def isWhiteSpace_def isDot_def)
  have "\<not> isWhiteSpace (last (sanitizeFilename (js ''../a b/'')))"
    by (simp only: e) (simp add: isWhiteSpace_def)
  with sanitizeFilename_safe [of "js ''../a b/''"] e show ?thesis by simp
qed

lemma replicate_199: "replicate 199 c = c # replicate 198 c"
proof -
  have "(199::nat) = Suc 198" by simp
  then show ?thesis by (simp only: replicate_Suc)
qed

lemma sanitize_longName:
  "sanitizeFilename longName = replicate 199 (cu CHR ''a'') @ js '' ''"
proof -
  have legal: "\<forall>c \<in> set longName. \<not> illegalChar c \<and> \<not> isDot c"
    by (auto simp: longName_def illegalChar_def isDot_def)
  then have m: "map (\<lambda>c. if illegalChar c then cu CHR ''_'' else c) longName = longName"
    by (simp add: map_legal)
  have ends: "longName \<noteq> []" "\<not> isWhiteSpace (hd longName)" "\<not> isWhiteSpace (last longName)"
    by (simp_all add: longName_def replicate_199 isWhiteSpace_def)
  have "clean longName = longName"
    using legal ends by (simp add: clean_def m replaceDotRuns_dotFree dotFree_nodots trim_id)
  then show ?thesis
    by (simp add: sanitizeFilename_clean) (simp add: longName_def)
qed

lemma sanitize_truncated:
  "sanitizeFilename (replicate 199 (cu CHR ''a'') @ js '' '') = replicate 199 (cu CHR ''a'')"
proof -
  let ?A = "replicate 199 (cu CHR ''a'')"
  let ?y = "?A @ js '' ''"
  have legal: "\<forall>c \<in> set ?y. \<not> illegalChar c \<and> \<not> isDot c"
    by (auto simp: illegalChar_def isDot_def)
  then have m: "map (\<lambda>c. if illegalChar c then cu CHR ''_'' else c) ?y = ?y"
    by (intro map_legal) simp
  have d1: "dropWhile isWhiteSpace ?y = ?y"
    by (simp add: replicate_199 isWhiteSpace_def)
  have "dropWhile isWhiteSpace ?A = ?A"
    by (cases "199::nat") (simp_all add: isWhiteSpace_def)
  then have d2: "dropWhile isWhiteSpace (rev ?y) = ?A"
    by (simp add: isWhiteSpace_def)
  have "trim ?y = ?A"
    unfolding trim_def d1 d2 by simp
  then have "clean ?y = ?A"
    using legal unfolding clean_def m by (simp add: replaceDotRuns_dotFree dotFree_nodots)
  then show ?thesis
    by (simp add: sanitizeFilename_clean)
qed

text \<open>
  C6 as stated fails twice. A name of 199 letters, a space and a letter is cut to 199
  letters and the space, and sanitizing that again trims the space: the function is not
  idempotent. And the control character U+007F is kept.
\<close>

theorem sanitizeFilename_counterexample:
  "sanitizeFilename (sanitizeFilename longName) \<noteq> sanitizeFilename longName
   \<and> sanitizeFilename [0x7F] = [0x7F]"
proof -
  have "sanitizeFilename (sanitizeFilename longName) = replicate 199 (cu CHR ''a'')"
    by (simp only: sanitize_longName sanitize_truncated)
  moreover have "replicate 199 (cu CHR ''a'') \<noteq> replicate 199 (cu CHR ''a'') @ js '' ''"
    by simp
  moreover have "sanitizeFilename [0x7F] = [0x7F]"
    by (simp add: sanitizeFilename_def trim_def illegalChar_def isWhiteSpace_def isDot_def)
  ultimately show ?thesis by (simp only: sanitize_longName) simp
qed

subsection \<open>The concrete runs\<close>

lemma gateEnv_fields:
  "proc gateEnv = \<lparr>cwd = js ''/w'', metaDir = js ''/app/src/utils''\<rparr>"
  "now gateEnv = 7"
  "fails gateEnv n = False"
  "inputExists gateEnv = Some True"
  "inputStat gateEnv = Some 16"
  "inputArrayBuffer gateEnv = Some sampleV3"
  "unzipListing gateEnv d = js ''  Length      Date    Time    Name'' @ [0x0A]
       @ js ''  1000000                     1 file'' @ [0x0A]"
  "unzipEntries gateEnv d = []"
  "unzipExitCode gateEnv d = 0"
  "parseJson gateEnv d = None"
  by (simp_all add: gateEnv_def listingEnv_def)

lemma localExtractor_fields:
  "buffer localExtractor = None"
  "input localExtractor = js ''ext.crx''"
  "config localExtractor = DEFAULT_CONFIG"
  "pathValidator localExtractor = rootValidator"
  "extensionInfo localExtractor = \<lparr>info_id = None, info_name = None\<rparr>"
  by (simp_all add: localExtractor_def)

lemma loaded_fields: "config loaded = DEFAULT_CONFIG" "pathValidator loaded = rootValidator"
  by (simp_all add: loaded_def localExtractor_def)

lemma newCRXExtractor_local:
  "newCRXExtractor (proc gateEnv) (js ''ext.crx'') DEFAULT_CONFIG = Inr localExtractor"
  by (simp add: newCRXExtractor_def localExtractor_def rootValidator_def gateEnv_fields
        newPathValidator_def DEFAULT_CONFIG_def Let_def)

lemma sanitizeFilename_ext: "sanitizeFilename (js ''ext'') = js ''ext''"
  by (simp add: sanitizeFilename_def trim_def illegalChar_def isWhiteSpace_def isDot_def)

lemma loadInput_local:
  "loadInput gateEnv localExtractor
   = (Inr (), localExtractor\<lparr>buffer := Some sampleV3,
        extensionInfo := \<lparr>info_id = Some (js ''local''), info_name = Some (js ''ext'')\<rparr>\<rparr>)"
  using sanitizeFilename_ext
  by (simp add: loadInput_def loadLocalFile_def localExtractor_fields gateEnv_fields
        DEFAULT_CONFIG_def startsWith_def)

lemma parseHeader_sample:
  assumes "buffer st = Some sampleV3"
  shows "parseHeader st = (Inr \<lparr>version = 3, zipOffset = 14\<rparr>, st\<lparr>offset := 12\<rparr>)"
  using assms unfolding sampleV3_def
  by (simp add: parseHeader_def readUInt32LE_def readUInt32LEAt_def CRX_MAGIC_def
        CRX_VERSION_2_def CRX_VERSION_3_def)

lemmas root_defs = path_defs rootValidator_def gateEnv_fields

lemma validatePath_out:
  "validatePath (proc gateEnv) rootValidator (js ''out'') None = Inr (js ''/w/out'')"
  by (simp add: root_defs)

lemma validatePath_tmp:
  "validatePath (proc gateEnv) rootValidator (js ''/w/out/.tmp_7'') None = Inr (js ''/w/out/.tmp_7'')"
  by (simp add: root_defs)

lemma validatePath_w:
  "validatePath (proc gateEnv) rootValidator (js ''/w'') None = Inr (js ''/w'')"
  by (simp add: root_defs)

lemma validatePath_crx:
  "validatePath (proc gateEnv) rootValidator (js ''_extensions/ext.crx'') None
     = Inr (js ''/w/_extensions/ext.crx'')"
  by (simp add: root_defs)

lemma validatePath_extensions:
  "validatePath (proc gateEnv) rootValidator (js ''/w/_extensions'') None = Inr (js ''/w/_extensions'')"
  by (simp add: root_defs)

lemma join_tmp: "join [js ''/w/out'', js ''.tmp_'' @ showNat (now gateEnv)] = js ''/w/out/.tmp_7''"
  by (simp add: join_def removeTrailingSlash_def notSlash_def startsWith_def gateEnv_fields
        showNat.simps)

lemma join_zip: "join [js ''/w/out/.tmp_7'', js ''archive.zip''] = js ''/w/out/.tmp_7/archive.zip''"
  by (simp add: join_def removeTrailingSlash_def notSlash_def startsWith_def)

lemma join_fallback:
  "join [js ''/w/out'', js ''failed_extraction.zip''] = js ''/w/out/failed_extraction.zip''"
  by (simp add: join_def removeTrailingSlash_def notSlash_def startsWith_def)

lemma join_crx:
  "join [extensionsDir DEFAULT_CONFIG, js ''ext'' @ js ''.crx''] = js ''_extensions/ext.crx''"
  by (simp add: join_def removeTrailingSlash_def notSlash_def startsWith_def DEFAULT_CONFIG_def
        DEFAULT_EXTENSIONS_DIR_def)

lemma dirname_out: "dirname (js ''/w/out'') = js ''/w''"
  by (simp add: dirname_def)

lemma dirname_crx: "dirname (js ''/w/_extensions/ext.crx'') = js ''/w/_extensions''"
  by (simp add: dirname_def)

lemma extract_prepare_local:
  "extract_prepare gateEnv (Some (js ''out'')) localExtractor
     = (Inr (sampleV3, [0x50, 0x4B], js ''ext'', js ''/w/out''), loaded)"
proof -
  let ?st1 = "localExtractor\<lparr>buffer := Some sampleV3,
        extensionInfo := \<lparr>info_id = Some (js ''local''), info_name = Some (js ''ext'')\<rparr>\<rparr>"
  have b: "buffer ?st1 = Some sampleV3" by simp
  have ph: "parseHeader ?st1 = (Inr \<lparr>version = 3, zipOffset = 14\<rparr>, ?st1\<lparr>offset := 12\<rparr>)"
    by (rule parseHeader_sample) simp
  have l: "?st1\<lparr>offset := 12\<rparr> = loaded" by (simp add: loaded_def)
  have n: "info_name (extensionInfo loaded) = Some (js ''ext'')" by (simp add: loaded_def)
  have d: "drop (zipOffset \<lparr>version = 3, zipOffset = 14\<rparr>) sampleV3 = [0x50, 0x4B]"
    by (simp add: sampleV3_def)
  have ne: "truthy (Some (js ''ext'')) = Some (js ''ext'')"
      "truthy (Some (js ''out'')) = Some (js ''out'')"
    by (simp_all add: truthy_def)
  show ?thesis
    by (simp only: extract_prepare_def loadInput_local prod.case sum.case b option.case ph l
          Let_def n d ne loaded_fields validatePath_out)
qed

text \<open>In \<open>gateEnv\<close> no operation fails.\<close>

lemma mkdirP_ok:
  "mkdirP gateEnv p w
     = (Inr (), w\<lparr>trace := trace w @ [MkdirP p], fs := makeDirs (ancestors [] p) (fs w)\<rparr>)"
  by (simp add: mkdirP_def attempt_def gateEnv_fields)

lemma rmRf_ok:
  "rmRf gateEnv p w
     = (Inr (), w\<lparr>trace := trace w @ [RmRf p],
                   fs := (\<lambda>q. if withinDir p q then None else fs w q)\<rparr>)"
  by (simp add: rmRf_def attempt_def gateEnv_fields cong: if_cong)

lemma writeFile_ok:
  "writeFile gateEnv p d w
     = (Inr (), w\<lparr>trace := trace w @ [WriteFile p d],
                   fs := (makeDirs (butlast (ancestors [] p)) (fs w))(p \<mapsto> File d)\<rparr>)"
  by (simp add: writeFile_def attempt_def gateEnv_fields)

lemma ensureDirectory_tmp:
  "ensureDirectory gateEnv rootValidator (js ''/w/out/.tmp_7'') w
     = (Inr (), w\<lparr>trace := trace w @ [MkdirP (js ''/w/out/.tmp_7'')],
                   fs := makeDirs (ancestors [] (js ''/w/out/.tmp_7'')) (fs w)\<rparr>)"
  by (simp only: ensureDirectory_def validatePath_tmp sum.case mkdirP_ok prod.case)

lemma ensureDirectory_w:
  "ensureDirectory gateEnv rootValidator (js ''/w'') w = mkdirP gateEnv (js ''/w'') w"
  by (simp only: ensureDirectory_def validatePath_w sum.case mkdirP_ok prod.case)

lemma ensureDirectory_extensions:
  "ensureDirectory gateEnv rootValidator (js ''/w/_extensions'') w
     = mkdirP gateEnv (js ''/w/_extensions'') w"
  by (simp only: ensureDirectory_def validatePath_extensions sum.case mkdirP_ok prod.case)

lemma matchSummary_gate:
  "matchSummary (js ''  1000000                     1 file'') = Some (js ''1000000'', js ''1'')"
  by (simp add: matchSummary_def isWhiteSpace_def isDigit_def startsWith_def Let_def)

lemma gate_rejects:
  assumes "fs w zp = Some (File [0x50, 0x4B])"
  shows "validateZipSecurity gateEnv DEFAULT_CONFIG zp w
     = (Inl (SecurityError SuspiciousCompressionRatio),
        w\<lparr>trace := trace w @ [UnzipList zp, StatFile zp]\<rparr>)"
  using assms matchSummary_gate
  by (simp add: validateZipSecurity_def getZipInfo_def attempt_def gateEnv_fields Let_def
        checkZipInfo_def divide_js_def parseInt_def DEFAULT_CONFIG_def)

lemma extractZip_try_rejected:
  "extractZip_try gateEnv DEFAULT_CONFIG rootValidator [0x50, 0x4B] (js ''/w/out'')
      (js ''/w/out/.tmp_7'') (js ''/w/out/.tmp_7/archive.zip'') w
   = (Inl (SecurityError SuspiciousCompressionRatio), staged w)"
proof -
  let ?zp = "js ''/w/out/.tmp_7/archive.zip''"
  let ?w1 = "w\<lparr>trace := trace w @ [MkdirP (js ''/w/out/.tmp_7'')],
                 fs := makeDirs (ancestors [] (js ''/w/out/.tmp_7'')) (fs w)\<rparr>"
  let ?w2 = "?w1\<lparr>trace := trace ?w1 @ [WriteFile ?zp [0x50, 0x4B]],
                 fs := (makeDirs (butlast (ancestors [] ?zp)) (fs ?w1))(?zp \<mapsto> File [0x50, 0x4B])\<rparr>"
  have g: "validateZipSecurity gateEnv DEFAULT_CONFIG ?zp ?w2
     = (Inl (SecurityError SuspiciousCompressionRatio),
        ?w2\<lparr>trace := trace ?w2 @ [UnzipList ?zp, StatFile ?zp]\<rparr>)"
    by (rule gate_rejects) simp
  have "extractZip_try gateEnv DEFAULT_CONFIG rootValidator [0x50, 0x4B] (js ''/w/out'')
      (js ''/w/out/.tmp_7'') ?zp w
     = (Inl (SecurityError SuspiciousCompressionRatio),
        ?w2\<lparr>trace := trace ?w2 @ [UnzipList ?zp, StatFile ?zp]\<rparr>)"
    by (simp only: extractZip_try_def ensureDirectory_tmp writeFile_ok g prod.case sum.case)
  also have "?w2\<lparr>trace := trace ?w2 @ [UnzipList ?zp, StatFile ?zp]\<rparr> = staged w"
    by (simp add: staged_def)
  finally show ?thesis .
qed

lemma extractZip_rejected:
  "extractZip gateEnv DEFAULT_CONFIG rootValidator [0x50, 0x4B] (js ''/w/out'') w
   = (Inl (ExtractionError (ExtractionFailedZipSavedTo (js ''/w/out/failed_extraction.zip''))),
      snd (rmRf gateEnv (js ''/w/out/.tmp_7'')
             (snd (writeFile gateEnv (js ''/w/out/failed_extraction.zip'') [0x50, 0x4B] (staged w)))))"
  by (simp only: extractZip_def Let_def join_tmp join_zip join_fallback extractZip_try_rejected
        writeFile_ok prod.case sum.case snd_conv)

lemma extract_write_rejected:
  "extract_write gateEnv sampleV3 [0x50, 0x4B] (js ''ext'') (js ''/w/out'') loaded w
   = (Inl (ExtractionError (ExtractionFailedZipSavedTo (js ''/w/out/failed_extraction.zip''))), loaded,
      snd (extractZip gateEnv DEFAULT_CONFIG rootValidator [0x50, 0x4B] (js ''/w/out'')
        (snd (writeFile gateEnv (js ''/w/_extensions/ext.crx'') sampleV3
          (snd (mkdirP gateEnv (js ''/w/_extensions'')
            (snd (mkdirP gateEnv (js ''/w/out'')
              (snd (rmRf gateEnv (js ''/w/out'')
                (snd (mkdirP gateEnv (js ''/w'') w))))))))))))"
  by (simp only: extract_write_def Let_def loaded_fields dirname_out dirname_crx join_crx
        validatePath_crx ensureDirectory_w ensureDirectory_extensions mkdirP_ok rmRf_ok
        writeFile_ok extractZip_rejected prod.case sum.case snd_conv)

lemma extract_crx_rejected:
  "extract_crx gateEnv (Some (js ''out'')) localExtractor w
   = extract_write gateEnv sampleV3 [0x50, 0x4B] (js ''ext'') (js ''/w/out'') loaded w"
  by (simp only: extract_crx_def extract_prepare_local prod.case sum.case)

lemmas world_steps = extract_crx_rejected extract_write_rejected extractZip_rejected
  mkdirP_ok rmRf_ok writeFile_ok snd_conv fst_conv

lemma run_result:
  "fst (extract_crx gateEnv (Some (js ''out'')) localExtractor w)
     = Inl (ExtractionError (ExtractionFailedZipSavedTo (js ''/w/out/failed_extraction.zip'')))"
  by (simp only: world_steps)

lemma run_fallback:
  "fs (snd (snd (extract_crx gateEnv (Some (js ''out'')) localExtractor w)))
      (js ''/w/out/failed_extraction.zip'') = Some (File [0x50, 0x4B])"
  by (simp only: world_steps) (simp add: withinDir_def startsWith_def)

lemma run_old_file:
  "fs (snd (snd (extract_crx gateEnv (Some (js ''out'')) localExtractor priorWorld)))
      (js ''/w/out/old.txt'') = None"
  by (simp only: world_steps)
     (simp add: withinDir_def startsWith_def staged_def makeDirs_def priorWorld_def)

lemma run_trace:
  "trace (snd (snd (extract_crx gateEnv (Some (js ''out'')) localExtractor priorWorld)))
     = [MkdirP (js ''/w''), RmRf (js ''/w/out''), MkdirP (js ''/w/out''),
        MkdirP (js ''/w/_extensions''), WriteFile (js ''/w/_extensions/ext.crx'') sampleV3,
        MkdirP (js ''/w/out/.tmp_7''), WriteFile (js ''/w/out/.tmp_7/archive.zip'') [0x50, 0x4B],
        UnzipList (js ''/w/out/.tmp_7/archive.zip''), StatFile (js ''/w/out/.tmp_7/archive.zip''),
        WriteFile (js ''/w/out/failed_extraction.zip'') [0x50, 0x4B], RmRf (js ''/w/out/.tmp_7'')]"
  by (simp only: world_steps) (simp add: staged_def priorWorld_def)

subsection \<open>Acquisition of a local file\<close>

text \<open>
  C7. For an extractor as the constructor builds it, with an input that holds no extension
  identifier (a local file) whose stat size exceeds \<open>maxFileSize\<close>: loading fails with a
  \<open>ValidationError\<close>, \<open>extract\<close> ends with that error, the extractor is as it was, with
  no buffer set and the cursor untouched, so that no header was parsed, and the world is
  unchanged.
\<close>

theorem oversized_local_file_rejected:
  assumes new: "newCRXExtractor p inp cfg = Inr st"
      and loc: "findExtensionId inp = None"
      and sz: "inputStat e = Some sz" "sz > maxFileSize cfg"
  shows "\<exists>m. (m = FileTooLarge \<or> m = FileNotFoundOrInaccessible \<or> m = FailedToLoadFile)
           \<and> loadInput e st = (Inl (ValidationError m), st)
           \<and> extract_crx e outputDir st w = (Inl (ValidationError m), st, w)
           \<and> buffer st = None \<and> offset st = 0"
proof -
  from new have st: "input st = inp" "config st = cfg" "buffer st = None" "offset st = 0"
    by (auto simp: newCRXExtractor_def split: if_splits)
  have "\<exists>m. (m = FileTooLarge \<or> m = FileNotFoundOrInaccessible \<or> m = FailedToLoadFile)
          \<and> loadLocalFile e st = (Inl (ValidationError m), st)"
    using sz st
    by (cases "inputExists e"; cases "inputArrayBuffer e")
       (auto simp: loadLocalFile_def split: bool.splits)
  then obtain m where "m = FileTooLarge \<or> m = FileNotFoundOrInaccessible \<or> m = FailedToLoadFile"
      "loadInput e st = (Inl (ValidationError m), st)"
    using loc st by (auto simp: loadInput_def)
  then show ?thesis
    using st by (auto simp: extract_crx_def extract_prepare_def)
qed

lemma findExtensionId_local: "findExtensionId (js ''ext.crx'') = None"
  by simp

theorem oversized_local_file_rejected_witness:
  "newCRXExtractor (proc gateEnv) (js ''ext.crx'') (DEFAULT_CONFIG\<lparr>maxFileSize := 10\<rparr>)
     = Inr (localExtractor\<lparr>config := DEFAULT_CONFIG\<lparr>maxFileSize := 10\<rparr>\<rparr>)
   \<and> findExtensionId (js ''ext.crx'') = None
   \<and> inputStat gateEnv = Some 16 \<and> (16::nat) > 10
   \<and> extract_crx gateEnv (Some (js ''out''))
        (localExtractor\<lparr>config := DEFAULT_CONFIG\<lparr>maxFileSize := 10\<rparr>\<rparr>) priorWorld
      = (Inl (ValidationError FileTooLarge),
         localExtractor\<lparr>config := DEFAULT_CONFIG\<lparr>maxFileSize := 10\<rparr>\<rparr>, priorWorld)"
proof -
  let ?cfg = "DEFAULT_CONFIG\<lparr>maxFileSize := 10\<rparr>"
  let ?st = "localExtractor\<lparr>config := ?cfg\<rparr>"
  have n: "newCRXExtractor (proc gateEnv) (js ''ext.crx'') ?cfg = Inr ?st"
    by (simp add: newCRXExtractor_def localExtractor_def rootValidator_def gateEnv_fields
          newPathValidator_def DEFAULT_CONFIG_def Let_def)
  have s: "inputStat gateEnv = Some 16" "(16::nat) > maxFileSize ?cfg"
    by (simp_all add: gateEnv_fields)
  have l: "loadInput gateEnv ?st = (Inl (ValidationError FileTooLarge), ?st)"
    by (simp add: loadInput_def loadLocalFile_def localExtractor_def gateEnv_fields)
  from oversized_local_file_rejected [OF n findExtensionId_local s, of "Some (js ''out'')" priorWorld] l
  have "extract_crx gateEnv (Some (js ''out'')) ?st priorWorld
          = (Inl (ValidationError FileTooLarge), ?st, priorWorld)"
    by auto
  with n s show ?thesis by (simp add: findExtensionId_local)
qed

subsection \<open>Cleanup of the staging directory\<close>

lemma mkdirP_trace: "trace (snd (mkdirP e p w)) = trace w @ [MkdirP p]"
  by (simp add: mkdirP_def attempt_def split: prod.splits bool.splits)

lemma rmRf_trace: "trace (snd (rmRf e p w)) = trace w @ [RmRf p]"
  by (simp add: rmRf_def attempt_def split: prod.splits bool.splits)

lemma writeFile_trace: "trace (snd (writeFile e p d w)) = trace w @ [WriteFile p d]"
  by (simp add: writeFile_def attempt_def split: prod.splits bool.splits)

lemma unzipInto_trace: "trace (snd (unzipInto e z d w)) = trace w @ [Unzip z d]"
  by (simp add: unzipInto_def attempt_def split: prod.splits bool.splits option.splits node.splits)

lemma moveAll_trace: "trace (moveAll e s d w) = trace w @ [MoveAll s d]"
  by (simp add: moveAll_def attempt_def split: prod.splits bool.splits)

lemma getZipInfo_trace: "prefix (trace w) (trace (snd (getZipInfo e z w)))"
  by (auto simp: getZipInfo_def attempt_def Let_def
           split: prod.splits bool.splits option.splits node.splits)

lemma validateZipSecurity_trace: "prefix (trace w) (trace (snd (validateZipSecurity e cfg z w)))"
  using getZipInfo_trace [of w e z]
  by (auto simp: validateZipSecurity_def split: prod.splits sum.splits)

lemma ensureDirectory_trace: "prefix (trace w) (trace (snd (ensureDirectory e pv p w)))"
proof (cases "validatePath (proc e) pv p None")
  case (Inl err)
  then show ?thesis by (simp add: ensureDirectory_def)
next
  case (Inr validPath)
  obtain r w1 where m: "mkdirP e validPath w = (r, w1)" by fastforce
  have "trace w1 = trace w @ [MkdirP validPath]"
    using mkdirP_trace [of e validPath w] m by simp
  then show ?thesis
    by (cases r) (simp_all add: ensureDirectory_def Inr m)
qed

lemma extractZip_try_trace:
  "prefix (trace w) (trace (snd (extractZip_try e cfg pv zipData outputDir tempDir zipPath w)))"
proof -
  obtain r1 w1 where s1: "ensureDirectory e pv tempDir w = (r1, w1)" by fastforce
  obtain r2 w2 where s2: "writeFile e zipPath zipData w1 = (r2, w2)" by fastforce
  obtain r3 w3 where s3: "validateZipSecurity e cfg zipPath w2 = (r3, w3)" by fastforce
  obtain r4 w4 where s4: "unzipInto e zipPath tempDir w3 = (r4, w4)" by fastforce
  have p1: "prefix (trace w) (trace w1)"
    using ensureDirectory_trace [of w e pv tempDir] s1 by simp
  have p2: "prefix (trace w1) (trace w2)"
    using writeFile_trace [of e zipPath zipData w1] s2 by simp
  have p3: "prefix (trace w2) (trace w3)"
    using validateZipSecurity_trace [of w2 e cfg zipPath] s3 by simp
  have p4: "prefix (trace w3) (trace w4)"
    using unzipInto_trace [of e zipPath tempDir w3] s4 by simp
  have p5: "prefix (trace w4) (trace (moveAll e tempDir outputDir w4))"
    by (simp add: moveAll_trace)
  have q2: "prefix (trace w) (trace w2)" using p1 p2 by (rule prefix_order.trans)
  have q3: "prefix (trace w) (trace w3)" using q2 p3 by (rule prefix_order.trans)
  have q4: "prefix (trace w) (trace w4)" using q3 p4 by (rule prefix_order.trans)
  have q5: "prefix (trace w) (trace (moveAll e tempDir outputDir w4))"
    using q4 p5 by (rule prefix_order.trans)
  show ?thesis
    using p1 q2 q3 q4 q5 by (simp add: extractZip_try_def s1 s2 s3 s4 split: sum.splits)
qed

lemma extractZip_trace: "prefix (trace w) (trace (snd (extractZip e cfg pv zipData outputDir w)))"
proof -
  let ?tempDir = "join [outputDir, js ''.tmp_'' @ showNat (now e)]"
  let ?zipPath = "join [?tempDir, js ''archive.zip'']"
  let ?fallbackPath = "join [outputDir, js ''failed_extraction.zip'']"
  obtain r1 w1 where t: "extractZip_try e cfg pv zipData outputDir ?tempDir ?zipPath w = (r1, w1)"
    by fastforce
  obtain r2 w2 where c: "writeFile e ?fallbackPath zipData w1 = (r2, w2)" by fastforce
  have p1: "prefix (trace w) (trace w1)"
    using extractZip_try_trace [of w e cfg pv zipData outputDir ?tempDir ?zipPath] t by simp
  have "prefix (trace w1) (trace w2)"
    using writeFile_trace [of e ?fallbackPath zipData w1] c by simp
  with p1 have p2: "prefix (trace w) (trace w2)" by (rule prefix_order.trans)
  have r: "\<And>w'. prefix (trace w) (trace w') \<Longrightarrow> prefix (trace w) (trace (snd (rmRf e ?tempDir w')))"
    by (simp add: rmRf_trace prefix_def) (metis append.assoc)
  show ?thesis
    unfolding extractZip_def Let_def
    by (cases r1; cases r2) (simp_all only: t c prod.case sum.case snd_conv r p1 p2)
qed

text \<open>
  C8. Whatever the environment does and however the extraction step ends (the staging
  directory cannot be created, the archive cannot be written, the security gate rejects,
  the decompression fails, the fallback copy cannot be written, or all succeeds), the last
  operation \<open>extractZip\<close> attempts is the removal of its staging directory.
\<close>

theorem extractZip_always_attempts_cleanup:
  "\<exists>ops. trace (snd (extractZip e cfg pv zipData outputDir w))
           = trace w @ ops @ [RmRf (join [outputDir, js ''.tmp_'' @ showNat (now e)])]"
proof -
  define tempDir where "tempDir = join [outputDir, js ''.tmp_'' @ showNat (now e)]"
  define zipPath where "zipPath = join [tempDir, js ''archive.zip'']"
  define fallbackPath where "fallbackPath = join [outputDir, js ''failed_extraction.zip'']"
  obtain r1 w1 where t: "extractZip_try e cfg pv zipData outputDir tempDir zipPath w = (r1, w1)"
    by fastforce
  have p1: "prefix (trace w) (trace w1)"
    using extractZip_try_trace [of w e cfg pv zipData outputDir tempDir zipPath] t by simp
  obtain r2 w2 where c: "writeFile e fallbackPath zipData w1 = (r2, w2)" by fastforce
  have p2: "prefix (trace w) (trace w2)"
    using writeFile_trace [of e fallbackPath zipData w1] c p1
    by (auto simp: prefix_def)
  have "snd (extractZip e cfg pv zipData outputDir w)
          = snd (rmRf e tempDir (case r1 of Inr u \<Rightarrow> w1 | Inl err \<Rightarrow> w2))"
    unfolding extractZip_def Let_def tempDir_def [symmetric] zipPath_def [symmetric]
      fallbackPath_def [symmetric]
    by (cases r1; cases r2) (simp_all add: t c)
  moreover have "prefix (trace w) (trace (case r1 of Inr u \<Rightarrow> w1 | Inl err \<Rightarrow> w2))"
    using p1 p2 by (simp split: sum.splits)
  ultimately show ?thesis
    unfolding tempDir_def [symmetric] by (auto simp: rmRf_trace prefix_def)
qed

subsection \<open>A rejection by the security gate\<close>

text \<open>
  No security error leaves \<open>extractZip\<close>: whatever its \<open>try\<close> block throws, the
  \<open>catch\<close> clause throws something else.
\<close>

lemma writeFile_error: "fst (writeFile e p d w) = Inl err \<Longrightarrow> err = Error ExternalFailure"
  by (auto simp: writeFile_def attempt_def split: prod.splits bool.splits)

lemma extractZip_never_security_error:
  "fst (extractZip e cfg pv zipData outputDir w) \<noteq> Inl (SecurityError m)"
proof -
  let ?tempDir = "join [outputDir, js ''.tmp_'' @ showNat (now e)]"
  let ?zipPath = "join [?tempDir, js ''archive.zip'']"
  let ?fallbackPath = "join [outputDir, js ''failed_extraction.zip'']"
  obtain r1 w1 where t: "extractZip_try e cfg pv zipData outputDir ?tempDir ?zipPath w = (r1, w1)"
    by fastforce
  obtain r2 w2 where c: "writeFile e ?fallbackPath zipData w1 = (r2, w2)" by fastforce
  have "r2 \<noteq> Inl (SecurityError m)"
    using writeFile_error [of e ?fallbackPath zipData w1 "SecurityError m"] c by auto
  then show ?thesis
    unfolding extractZip_def Let_def
    by (cases r1; cases r2)
       (simp_all only: t c prod.case sum.case fst_conv sum.inject sum.distinct error.distinct
          simp_thms)
qed

text \<open>
  C1. The run of \<open>extract\<close> on \<open>ext.crx\<close> in \<open>gateEnv\<close>: the \<open>try\<close> block of
  \<open>extractZip\<close> ends with the security error of the ratio check, but the run ends with
  an \<open>ExtractionError\<close>, and afterwards the rejected payload is the content of
  \<open>failed_extraction.zip\<close> in the output directory.
\<close>

theorem security_rejection_saved_as_extraction_failure:
  "fst (extractZip_try gateEnv DEFAULT_CONFIG rootValidator [0x50, 0x4B] (js ''/w/out'')
          (js ''/w/out/.tmp_7'') (js ''/w/out/.tmp_7/archive.zip'') priorWorld)
     = Inl (SecurityError SuspiciousCompressionRatio)
   \<and> fst (extract_crx gateEnv (Some (js ''out'')) localExtractor priorWorld)
     = Inl (ExtractionError (ExtractionFailedZipSavedTo (js ''/w/out/failed_extraction.zip'')))
   \<and> fs (snd (snd (extract_crx gateEnv (Some (js ''out'')) localExtractor priorWorld)))
        (js ''/w/out/failed_extraction.zip'') = Some (File [0x50, 0x4B])"
  by (simp only: extractZip_try_rejected run_result run_fallback fst_conv simp_thms)

subsection \<open>When the output directory is cleared\<close>

lemma moves_mkdirP: "moves (snd (mkdirP e p w)) = moves w"
  by (simp add: moves_def mkdirP_trace)

lemma moves_rmRf: "moves (snd (rmRf e p w)) = moves w"
  by (simp add: moves_def rmRf_trace)

lemma moves_writeFile: "moves (snd (writeFile e p d w)) = moves w"
  by (simp add: moves_def writeFile_trace)

lemma moves_unzipInto: "moves (snd (unzipInto e z d w)) = moves w"
  by (simp add: moves_def unzipInto_trace)

lemma moves_getZipInfo: "moves (snd (getZipInfo e z w)) = moves w"
  by (auto simp: moves_def getZipInfo_def attempt_def Let_def
           split: prod.splits bool.splits option.splits node.splits)

lemma moves_validateZipSecurity: "moves (snd (validateZipSecurity e cfg z w)) = moves w"
  using moves_getZipInfo [of e z w]
  by (auto simp: validateZipSecurity_def split: prod.splits sum.splits)

lemma moves_ensureDirectory: "moves (snd (ensureDirectory e pv p w)) = moves w"
proof (cases "validatePath (proc e) pv p None")
  case (Inl err)
  then show ?thesis by (simp add: ensureDirectory_def)
next
  case (Inr validPath)
  obtain r w1 where m: "mkdirP e validPath w = (r, w1)" by fastforce
  have "moves w1 = moves w" using moves_mkdirP [of e validPath w] m by simp
  then show ?thesis by (cases r) (simp_all add: ensureDirectory_def Inr m)
qed

lemma moves_extractZip_try:
  assumes "fst (extractZip_try e cfg pv zipData outputDir tempDir zipPath w) = Inl err"
  shows "moves (snd (extractZip_try e cfg pv zipData outputDir tempDir zipPath w)) = moves w"
proof -
  obtain r1 w1 where s1: "ensureDirectory e pv tempDir w = (r1, w1)" by fastforce
  obtain r2 w2 where s2: "writeFile e zipPath zipData w1 = (r2, w2)" by fastforce
  obtain r3 w3 where s3: "validateZipSecurity e cfg zipPath w2 = (r3, w3)" by fastforce
  obtain r4 w4 where s4: "unzipInto e zipPath tempDir w3 = (r4, w4)" by fastforce
  have m1: "moves w1 = moves w" using moves_ensureDirectory [of e pv tempDir w] s1 by simp
  have m2: "moves w2 = moves w" using moves_writeFile [of e zipPath zipData w1] s2 m1 by simp
  have m3: "moves w3 = moves w" using moves_validateZipSecurity [of e cfg zipPath w2] s3 m2 by simp
  have m4: "moves w4 = moves w" using moves_unzipInto [of e zipPath tempDir w3] s4 m3 by simp
  show ?thesis
    using assms m1 m2 m3 m4
    by (simp add: extractZip_try_def s1 s2 s3 s4 split: sum.splits if_splits)
qed

lemma moves_extractZip:
  assumes "fst (extractZip e cfg pv zipData outputDir w) = Inl err"
  shows "moves (snd (extractZip e cfg pv zipData outputDir w)) = moves w"
proof -
  define tempDir where "tempDir = join [outputDir, js ''.tmp_'' @ showNat (now e)]"
  define zipPath where "zipPath = join [tempDir, js ''archive.zip'']"
  define fallbackPath where "fallbackPath = join [outputDir, js ''failed_extraction.zip'']"
  obtain r1 w1 where t: "extractZip_try e cfg pv zipData outputDir tempDir zipPath w = (r1, w1)"
    by fastforce
  obtain r2 w2 where c: "writeFile e fallbackPath zipData w1 = (r2, w2)" by fastforce
  have ex: "extractZip e cfg pv zipData outputDir w
        = (case r1 of Inr u \<Rightarrow> (Inr u, snd (rmRf e tempDir w1))
           | Inl err \<Rightarrow> (case r2 of Inl err' \<Rightarrow> Inl err'
                          | Inr u \<Rightarrow> Inl (ExtractionError (ExtractionFailedZipSavedTo fallbackPath)),
                        snd (rmRf e tempDir w2)))"
    unfolding extractZip_def Let_def tempDir_def [symmetric] zipPath_def [symmetric]
      fallbackPath_def [symmetric]
    by (cases r1; cases r2) (simp_all add: t c)
  from assms ex obtain err1 where r1: "r1 = Inl err1" by (cases r1) simp_all
  then have "moves w1 = moves w"
    using moves_extractZip_try [of e cfg pv zipData outputDir tempDir zipPath w err1] t by simp
  moreover have "moves w2 = moves w1" using moves_writeFile [of e fallbackPath zipData w1] c by simp
  ultimately show ?thesis
    by (simp add: ex r1 moves_rmRf)
qed

lemma extract_write_cases:
  fixes e buf zipData extensionName outDir st w
  defines "pv \<equiv> pathValidator st"
  defines "s1 \<equiv> ensureDirectory e pv (dirname outDir) w"
  defines "s2 \<equiv> rmRf e outDir (snd s1)"
  defines "s3 \<equiv> mkdirP e outDir (snd s2)"
  defines "vp \<equiv> validatePath (proc e) pv (join [extensionsDir (config st), extensionName @ js ''.crx'']) None"
  defines "s4 \<equiv> ensureDirectory e pv (dirname (projr vp)) (snd s3)"
  defines "s5 \<equiv> writeFile e (projr vp) buf (snd s4)"
  defines "s6 \<equiv> extractZip e (config st) pv zipData outDir (snd s5)"
  shows "extract_write e buf zipData extensionName outDir st w =
    (if isl (fst s1) then (Inl (projl (fst s1)), st, snd s1)
     else if isl (fst s2) then (Inl (projl (fst s2)), st, snd s2)
     else if isl (fst s3) then (Inl (projl (fst s3)), st, snd s3)
     else if isl vp then (Inl (projl vp), st, snd s3)
     else if isl (fst s4) then (Inl (projl (fst s4)), st, snd s4)
     else if isl (fst s5) then (Inl (projl (fst s5)), st, snd s5)
     else if isl (fst s6) then (Inl (projl (fst s6)), st, snd s6)
     else (Inr (), snd (readManifest e outDir (snd s6) st), snd s6))"
  unfolding extract_write_def Let_def s6_def s5_def s4_def s3_def s2_def s1_def vp_def pv_def
  by (auto split: prod.splits sum.splits)

lemma moves_extract_write:
  assumes "fst (extract_write e buf zipData extensionName outDir st w) = Inl err"
  shows "moves (snd (snd (extract_write e buf zipData extensionName outDir st w))) = moves w"
proof -
  define pv where "pv = pathValidator st"
  define s1 where "s1 = ensureDirectory e pv (dirname outDir) w"
  define s2 where "s2 = rmRf e outDir (snd s1)"
  define s3 where "s3 = mkdirP e outDir (snd s2)"
  define vp where "vp = validatePath (proc e) pv (join [extensionsDir (config st), extensionName @ js ''.crx'']) None"
  define s4 where "s4 = ensureDirectory e pv (dirname (projr vp)) (snd s3)"
  define s5 where "s5 = writeFile e (projr vp) buf (snd s4)"
  define s6 where "s6 = extractZip e (config st) pv zipData outDir (snd s5)"
  note c = extract_write_cases [of e buf zipData extensionName outDir st w,
      folded pv_def, folded s1_def, folded s2_def, folded s3_def, folded vp_def, folded s4_def,
      folded s5_def, folded s6_def]
  have m1: "moves (snd s1) = moves w" by (simp add: s1_def moves_ensureDirectory)
  have m2: "moves (snd s2) = moves w" by (simp add: s2_def moves_rmRf m1)
  have m3: "moves (snd s3) = moves w" by (simp add: s3_def moves_mkdirP m2)
  have m4: "moves (snd s4) = moves w" by (simp add: s4_def moves_ensureDirectory m3)
  have m5: "moves (snd s5) = moves w" by (simp add: s5_def moves_writeFile m4)
  have m6: "isl (fst s6) \<Longrightarrow> moves (snd s6) = moves w"
    using moves_extractZip [of e "config st" pv zipData outDir "snd s5" "projl (fst s6)"] m5
    by (auto simp: s6_def isl_def)
  show ?thesis
    using assms m1 m2 m3 m4 m5 m6 by (simp add: c split: if_splits)
qed

lemma clearing_precedes_staging:
  assumes "ensureDirectory e (pathValidator st) (dirname outDir) w = (Inr u, w1)"
  shows "prefix (trace w1 @ [RmRf outDir])
           (trace (snd (snd (extract_write e buf zipData extensionName outDir st w))))"
proof -
  define pv where "pv = pathValidator st"
  define s1 where "s1 = ensureDirectory e pv (dirname outDir) w"
  define s2 where "s2 = rmRf e outDir (snd s1)"
  define s3 where "s3 = mkdirP e outDir (snd s2)"
  define vp where "vp = validatePath (proc e) pv (join [extensionsDir (config st), extensionName @ js ''.crx'']) None"
  define s4 where "s4 = ensureDirectory e pv (dirname (projr vp)) (snd s3)"
  define s5 where "s5 = writeFile e (projr vp) buf (snd s4)"
  define s6 where "s6 = extractZip e (config st) pv zipData outDir (snd s5)"
  note c = extract_write_cases [of e buf zipData extensionName outDir st w,
      folded pv_def, folded s1_def, folded s2_def, folded s3_def, folded vp_def, folded s4_def,
      folded s5_def, folded s6_def]
  from assms have s1: "s1 = (Inr u, w1)" by (simp add: s1_def pv_def)
  have t2: "trace (snd s2) = trace w1 @ [RmRf outDir]" by (simp add: s2_def s1 rmRf_trace)
  have p3: "prefix (trace (snd s2)) (trace (snd s3))" by (simp add: s3_def mkdirP_trace)
  have p4: "prefix (trace (snd s3)) (trace (snd s4))" by (simp add: s4_def ensureDirectory_trace)
  have p5: "prefix (trace (snd s4)) (trace (snd s5))" by (simp add: s5_def writeFile_trace)
  have p6: "prefix (trace (snd s5)) (trace (snd s6))" by (simp add: s6_def extractZip_trace)
  have q4: "prefix (trace (snd s2)) (trace (snd s4))" using p3 p4 by (rule prefix_order.trans)
  have q5: "prefix (trace (snd s2)) (trace (snd s5))" using q4 p5 by (rule prefix_order.trans)
  have q6: "prefix (trace (snd s2)) (trace (snd s6))" using q5 p6 by (rule prefix_order.trans)
  have "prefix (trace (snd s2)) (trace (snd (snd (extract_write e buf zipData extensionName outDir st w))))"
    using p3 q4 q5 q6 by (simp add: c s1)
  then show ?thesis by (simp only: t2)
qed

text \<open>
  C2 as stated fails: the run in \<open>gateEnv\<close> fails at the security gate, and the file
  that the output directory held before the run is gone after it.
\<close>

theorem gate_failure_clears_output_directory:
  "fst (extractZip_try gateEnv DEFAULT_CONFIG rootValidator [0x50, 0x4B] (js ''/w/out'')
          (js ''/w/out/.tmp_7'') (js ''/w/out/.tmp_7/archive.zip'')
          (snd (writeFile gateEnv (js ''/w/_extensions/ext.crx'') sampleV3
            (snd (mkdirP gateEnv (js ''/w/_extensions'')
              (snd (mkdirP gateEnv (js ''/w/out'')
                (snd (rmRf gateEnv (js ''/w/out'')
                  (snd (mkdirP gateEnv (js ''/w'') priorWorld)))))))))))
     = Inl (SecurityError SuspiciousCompressionRatio)
   \<and> fst (extract_crx gateEnv (Some (js ''out'')) localExtractor priorWorld)
     = Inl (ExtractionError (ExtractionFailedZipSavedTo (js ''/w/out/failed_extraction.zip'')))
   \<and> fs priorWorld (js ''/w/out/old.txt'') = Some (File [1])
   \<and> fs (snd (snd (extract_crx gateEnv (Some (js ''out'')) localExtractor priorWorld)))
        (js ''/w/out/old.txt'') = None"
proof -
  have "fs priorWorld (js ''/w/out/old.txt'') = Some (File [1])"
    by (simp add: priorWorld_def)
  then show ?thesis
    by (simp only: extractZip_try_rejected run_result run_old_file fst_conv simp_thms)
qed

text \<open>
  C2, as the code has it. A run that fails while the input is loaded, the header parsed or
  the output directory validated leaves the world as it was. Once these have succeeded
  and the parent of the output directory has been created, the removal of the output
  directory is the next operation, before anything is staged. And the move of extracted
  files into the output directory is attempted in no run that ends with an error.
\<close>

theorem output_directory_cleared_before_staging:
  "(\<forall>err. fst (extract_prepare e outputDir st) = Inl err \<longrightarrow>
       extract_crx e outputDir st w = (Inl err, snd (extract_prepare e outputDir st), w))
   \<and> (\<forall>buf zipData extensionName outDir st1 u w1.
         extract_prepare e outputDir st = (Inr (buf, zipData, extensionName, outDir), st1)
         \<and> ensureDirectory e (pathValidator st1) (dirname outDir) w = (Inr u, w1) \<longrightarrow>
         prefix (trace w1 @ [RmRf outDir]) (trace (snd (snd (extract_crx e outputDir st w)))))
   \<and> (\<forall>err. fst (extract_crx e outputDir st w) = Inl err \<longrightarrow>
         moves (snd (snd (extract_crx e outputDir st w))) = moves w)"
proof (intro conjI allI impI)
  fix err assume "fst (extract_prepare e outputDir st) = Inl err"
  then show "extract_crx e outputDir st w = (Inl err, snd (extract_prepare e outputDir st), w)"
    by (cases "extract_prepare e outputDir st") (simp add: extract_crx_def)
next
  fix buf zipData extensionName outDir st1 u w1
  assume "extract_prepare e outputDir st = (Inr (buf, zipData, extensionName, outDir), st1)
          \<and> ensureDirectory e (pathValidator st1) (dirname outDir) w = (Inr u, w1)"
  then show "prefix (trace w1 @ [RmRf outDir]) (trace (snd (snd (extract_crx e outputDir st w))))"
    using clearing_precedes_staging [of e st1 outDir w u w1 buf zipData extensionName]
    by (simp add: extract_crx_def)
next
  fix err assume f: "fst (extract_crx e outputDir st w) = Inl err"
  obtain r st1 where p: "extract_prepare e outputDir st = (r, st1)" by fastforce
  show "moves (snd (snd (extract_crx e outputDir st w))) = moves w"
  proof (cases r)
    case (Inl err')
    then show ?thesis by (simp add: extract_crx_def p)
  next
    case (Inr x)
    obtain buf zipData extensionName outDir where x: "x = (buf, zipData, extensionName, outDir)"
      by (cases x) auto
    from f have "fst (extract_write e buf zipData extensionName outDir st1 w) = Inl err"
      by (simp add: extract_crx_def p Inr x)
    then show ?thesis
      using moves_extract_write [of e buf zipData extensionName outDir st1 w err]
      by (simp add: extract_crx_def p Inr x)
  qed
qed

lemma extract_prepare_missing:
  "extract_prepare missingEnv (Some (js ''out'')) localExtractor
     = (Inl (ValidationError FileNotFoundOrInaccessible), localExtractor)"
  by (simp add: extract_prepare_def loadInput_def loadLocalFile_def localExtractor_fields
        missingEnv_def gateEnv_def listingEnv_def)

theorem output_directory_cleared_before_staging_witness:
  "extract_crx missingEnv (Some (js ''out'')) localExtractor priorWorld
     = (Inl (ValidationError FileNotFoundOrInaccessible), localExtractor, priorWorld)
   \<and> prefix ([MkdirP (js ''/w'')] @ [RmRf (js ''/w/out'')])
        (trace (snd (snd (extract_crx gateEnv (Some (js ''out'')) localExtractor priorWorld))))
   \<and> moves (snd (snd (extract_crx gateEnv (Some (js ''out'')) localExtractor priorWorld))) = []"
proof -
  have a: "fst (extract_prepare missingEnv (Some (js ''out'')) localExtractor)
             = Inl (ValidationError FileNotFoundOrInaccessible)"
    by (simp only: extract_prepare_missing fst_conv)
  have b: "extract_prepare gateEnv (Some (js ''out'')) localExtractor
             = (Inr (sampleV3, [0x50, 0x4B], js ''ext'', js ''/w/out''), loaded)
           \<and> ensureDirectory gateEnv (pathValidator loaded) (dirname (js ''/w/out'')) priorWorld
             = (Inr (), priorWorld\<lparr>trace := trace priorWorld @ [MkdirP (js ''/w'')],
                   fs := makeDirs (ancestors [] (js ''/w'')) (fs priorWorld)\<rparr>)"
    by (simp only: extract_prepare_local loaded_fields dirname_out ensureDirectory_w mkdirP_ok
          simp_thms)
  have c: "fst (extract_crx gateEnv (Some (js ''out'')) localExtractor priorWorld)
             = Inl (ExtractionError (ExtractionFailedZipSavedTo (js ''/w/out/failed_extraction.zip'')))"
    by (rule run_result)
  have t: "trace priorWorld = []" "moves priorWorld = []"
    by (simp_all add: priorWorld_def moves_def)
  note T = output_directory_cleared_before_staging
  have 1: "extract_crx missingEnv (Some (js ''out'')) localExtractor priorWorld
     = (Inl (ValidationError FileNotFoundOrInaccessible), localExtractor, priorWorld)"
    using T [of missingEnv "Some (js ''out'')" localExtractor priorWorld,
             THEN conjunct1, THEN spec, THEN mp, OF a]
    by (simp only: extract_prepare_missing snd_conv)
  have "prefix (trace (priorWorld\<lparr>trace := trace priorWorld @ [MkdirP (js ''/w'')],
                   fs := makeDirs (ancestors [] (js ''/w'')) (fs priorWorld)\<rparr>) @ [RmRf (js ''/w/out'')])
        (trace (snd (snd (extract_crx gateEnv (Some (js ''out'')) localExtractor priorWorld))))"
    by (rule T [of gateEnv "Some (js ''out'')" localExtractor priorWorld,
             THEN conjunct2, THEN conjunct1, THEN spec, THEN spec, THEN spec, THEN spec,
             THEN spec, THEN spec, THEN spec, THEN mp, OF b])
  then have 2: "prefix ([MkdirP (js ''/w'')] @ [RmRf (js ''/w/out'')])
        (trace (snd (snd (extract_crx gateEnv (Some (js ''out'')) localExtractor priorWorld))))"
    using t by simp
  have "moves (snd (snd (extract_crx gateEnv (Some (js ''out'')) localExtractor priorWorld)))
          = moves priorWorld"
    by (rule T [of gateEnv "Some (js ''out'')" localExtractor priorWorld,
             THEN conjunct2, THEN conjunct2, THEN spec, THEN mp, OF c])
  then have 3: "moves (snd (snd (extract_crx gateEnv (Some (js ''out'')) localExtractor priorWorld))) = []"
    by (simp only: t)
  from 1 2 3 show ?thesis by (intro conjI)
qed

end
